theory Spec2Isabelle
  imports Complex_Main "HOL-Library.Multiset"
begin

section \<open>Priority calculator\<close>

text \<open>
  \<^verbatim>\<open>CrisisService.calculate_priority\<close> of \<^verbatim>\<open>services.py\<close>. Python integers are
  unbounded, so the arguments and the result are \<^typ>\<open>int\<close>.
\<close>

definition calculate_priority :: "int \<Rightarrow> int \<Rightarrow> int \<Rightarrow> int \<Rightarrow> int" where
  "calculate_priority severity people_affected urgency available_resources =
     (severity * 3) + (people_affected * 2) + (urgency * 4) - (available_resources * 2)"

text \<open>The helper \<^verbatim>\<open>calculate_priority\<close> of \<^verbatim>\<open>app.py\<close>, written out a second time there.\<close>

definition app_calculate_priority :: "int \<Rightarrow> int \<Rightarrow> int \<Rightarrow> int \<Rightarrow> int" where
  "app_calculate_priority severity people_affected urgency available_resources =
     (severity * 3) + (people_affected * 2) + (urgency * 4) - (available_resources * 2)"

section \<open>Python strings and integer parsing\<close>

text \<open>
  Form values are Python \<^verbatim>\<open>str\<close> objects. They are modelled as \<^typ>\<open>string\<close>, one
  \<^typ>\<open>char\<close> per code point, which covers the code points below 256; \<^verbatim>\<open>len\<close> is
  \<^const>\<open>length\<close>.
\<close>

text \<open>\<^verbatim>\<open>str.isspace\<close> on one code point below 256.\<close>

definition py_isspace :: "char \<Rightarrow> bool" where
  "py_isspace c = ((of_char c :: int) \<in> {9, 10, 11, 12, 13, 28, 29, 30, 31, 32, 133, 160})"

text \<open>\<^verbatim>\<open>str.strip()\<close>: whitespace is removed at both ends.\<close>

definition strip :: "string \<Rightarrow> string" where
  "strip s = rev (dropWhile py_isspace (rev (dropWhile py_isspace s)))"

text \<open>\<^verbatim>\<open>sep.join(xs)\<close>.\<close>

fun py_join :: "string \<Rightarrow> string list \<Rightarrow> string" where
  "py_join sep [] = []"
| "py_join sep [x] = x"
| "py_join sep (x # y # ys) = x @ sep @ py_join sep (y # ys)"

definition is_digit :: "char \<Rightarrow> bool" where
  "is_digit c = (48 \<le> (of_char c :: int) \<and> (of_char c :: int) \<le> 57)"

definition digit_value :: "char \<Rightarrow> int" where
  "digit_value c = of_char c - 48"

text \<open>
  The digits of a decimal literal after its first digit: a digit, or one underscore
  followed by a digit. \<^const>\<open>None\<close> is Python's \<^verbatim>\<open>ValueError\<close>.
\<close>

fun py_digits :: "int \<Rightarrow> string \<Rightarrow> int option" where
  "py_digits acc [] = Some acc"
| "py_digits acc [c] = (if is_digit c then Some (acc * 10 + digit_value c) else None)"
| "py_digits acc (c # d # cs) =
     (if is_digit c then py_digits (acc * 10 + digit_value c) (d # cs)
      else if c = CHR ''_'' \<and> is_digit d then py_digits (acc * 10 + digit_value d) cs
      else None)"

text \<open>
  The whitespace that \<^verbatim>\<open>int\<close> skips around a literal: unlike \<^verbatim>\<open>str.strip\<close> it does not
  skip the separators 28 to 31.
\<close>

definition int_isspace :: "char \<Rightarrow> bool" where
  "int_isspace c = ((of_char c :: int) \<in> {9, 10, 11, 12, 13, 32, 133, 160})"

text \<open>
  The interpreter's limit on the number of digits of a decimal literal
  (\<^verbatim>\<open>sys.get_int_max_str_digits()\<close>, which the application leaves at its default).
\<close>

definition max_str_digits :: int where
  "max_str_digits = 4300"

text \<open>
  \<^verbatim>\<open>int(s)\<close> for a string \<open>s\<close>, base 10: surrounding whitespace is dropped, one sign is
  allowed, then come digits with single underscores between them, at most
  \<^const>\<open>max_str_digits\<close> digits in all (leading zeros count, underscores do not).
  \<^const>\<open>None\<close> is \<^verbatim>\<open>ValueError\<close>.
\<close>

definition py_int :: "string \<Rightarrow> int option" where
  "py_int s =
     (let t = rev (dropWhile int_isspace (rev (dropWhile int_isspace s)));
          neg = (case t of [] \<Rightarrow> False | c # _ \<Rightarrow> c = CHR ''-'');
          body = (case t of [] \<Rightarrow> [] | c # cs \<Rightarrow> if c = CHR ''-'' \<or> c = CHR ''+'' then cs else t)
      in case body of
           [] \<Rightarrow> None
         | d # ds \<Rightarrow>
             if is_digit d
             then (case py_digits (digit_value d) ds of
                     None \<Rightarrow> None
                   | Some n \<Rightarrow>
                       if int (length (filter is_digit body)) > max_str_digits then None
                       else Some (if neg then - n else n))
             else None)"

section \<open>Validators (\<^verbatim>\<open>validators.py\<close>)\<close>

text \<open>
  The argument of both validators is \<^verbatim>\<open>request.form\<close>: a mapping from field names to
  strings. \<^verbatim>\<open>data.get(key, '')\<close> and \<^verbatim>\<open>int(data.get(key, 0))\<close> are the two ways the
  validators read it; \<^verbatim>\<open>int(0)\<close> is \<open>0\<close>.
\<close>

type_synonym form = "string \<rightharpoonup> string"

definition get_str :: "form \<Rightarrow> string \<Rightarrow> string" where
  "get_str data key = (case data key of None \<Rightarrow> [] | Some v \<Rightarrow> v)"

definition get_int :: "form \<Rightarrow> string \<Rightarrow> int option" where
  "get_int data key = (case data key of None \<Rightarrow> Some 0 | Some v \<Rightarrow> py_int v)"

datatype ValidationError = ValidationError string

text \<open>
  The dictionary returned by \<^verbatim>\<open>CrisisValidator.validate_create\<close>. A numeric entry holds
  the parsed integer, or \<^const>\<open>None\<close> where the \<^verbatim>\<open>except\<close> branch assigned Python's
  \<^verbatim>\<open>None\<close>.
\<close>

record crisis_data =
  clean_title :: string
  clean_description :: string
  clean_severity :: "int option"
  clean_urgency :: "int option"
  clean_people_affected :: "int option"
  clean_available_resources :: "int option"
  clean_required_skill :: string

text \<open>
  Lines 28 to 95 of \<^verbatim>\<open>validate_create\<close>: the list \<^verbatim>\<open>errors\<close> is threaded through the
  seven field checks (\<^verbatim>\<open>errors.append(m)\<close> is \<open>errors @ [m]\<close>), and the cleaned values
  are collected.
\<close>

definition validate_create_fields :: "form \<Rightarrow> string list \<times> crisis_data" where
  "validate_create_fields data =
     (let errors = [];
          title = strip (get_str data ''title'');
          errors =
            (if title = [] then errors @ [''Situation title is required'']
             else if length title < 5
               then errors @ [''Situation title must be at least 5 characters'']
             else if length title > 200
               then errors @ [''Situation title must not exceed 200 characters'']
             else errors);
          description = strip (get_str data ''description'');
          errors =
            (if description = [] then errors @ [''Situation assessment is required'']
             else if length description < 20
               then errors @ [''Situation assessment must be at least 20 characters'']
             else if length description > 5000
               then errors @ [''Situation assessment must not exceed 5000 characters'']
             else errors);
          (severity, errors) =
            (case get_int data ''severity'' of
               Some severity \<Rightarrow>
                 (Some severity,
                  if \<not> (1 \<le> severity \<and> severity \<le> 5)
                  then errors @ [''Severity must be between 1 and 5'']
                  else errors)
             | None \<Rightarrow> (None, errors @ [''Severity must be a valid number'']));
          (urgency, errors) =
            (case get_int data ''urgency'' of
               Some urgency \<Rightarrow>
                 (Some urgency,
                  if \<not> (1 \<le> urgency \<and> urgency \<le> 5)
                  then errors @ [''Urgency must be between 1 and 5'']
                  else errors)
             | None \<Rightarrow> (None, errors @ [''Urgency must be a valid number'']));
          (people_affected, errors) =
            (case get_int data ''people_affected'' of
               Some people_affected \<Rightarrow>
                 (Some people_affected,
                  if people_affected < 0
                  then errors @ [''Population impact cannot be negative'']
                  else if people_affected > 10000000
                  then errors @ [''Population impact exceeds maximum value'']
                  else errors)
             | None \<Rightarrow> (None, errors @ [''Population impact must be a valid number'']));
          (available_resources, errors) =
            (case get_int data ''available_resources'' of
               Some available_resources \<Rightarrow>
                 (Some available_resources,
                  if available_resources < 0
                  then errors @ [''Current resources cannot be negative'']
                  else if available_resources > 1000000
                  then errors @ [''Current resources exceeds maximum value'']
                  else errors)
             | None \<Rightarrow> (None, errors @ [''Current resources must be a valid number'']));
          required_skill = strip (get_str data ''required_skill'');
          errors =
            (if required_skill = [] then errors @ [''Critical expertise is required'']
             else if length required_skill < 3
               then errors @ [''Critical expertise must be at least 3 characters'']
             else if length required_skill > 100
               then errors @ [''Critical expertise must not exceed 100 characters'']
             else errors)
      in (errors,
          \<lparr>clean_title = title,
           clean_description = description,
           clean_severity = severity,
           clean_urgency = urgency,
           clean_people_affected = people_affected,
           clean_available_resources = available_resources,
           clean_required_skill = required_skill\<rparr>))"

text \<open>
  Lines 97 to 110: a non-empty list raises one \<^verbatim>\<open>ValidationError\<close> carrying the
  messages joined by \<^verbatim>\<open>'; '\<close>; otherwise the cleaned dictionary is returned.
\<close>

definition validate_create :: "form \<Rightarrow> ValidationError + crisis_data" where
  "validate_create data =
     (case validate_create_fields data of
        (errors, cleaned) \<Rightarrow>
          if errors \<noteq> [] then Inl (ValidationError (py_join ''; '' errors))
          else Inr cleaned)"

record volunteer_data =
  clean_name :: string
  clean_skills :: string
  clean_availability :: string

definition VALID_AVAILABILITY :: "string list" where
  "VALID_AVAILABILITY = [''Full-time'', ''Part-time'', ''Weekends'', ''On-call'']"

text \<open>Lines 132 to 157 of \<^verbatim>\<open>VolunteerValidator.validate_register\<close>.\<close>

definition validate_register_fields :: "form \<Rightarrow> string list \<times> volunteer_data" where
  "validate_register_fields data =
     (let errors = [];
          name = strip (get_str data ''name'');
          errors =
            (if name = [] then errors @ [''Full name is required'']
             else if length name < 2
               then errors @ [''Full name must be at least 2 characters'']
             else if length name > 100
               then errors @ [''Full name must not exceed 100 characters'']
             else errors);
          skills = strip (get_str data ''skills'');
          errors =
            (if skills = [] then errors @ [''Professional expertise is required'']
             else if length skills < 3
               then errors @ [''Professional expertise must be at least 3 characters'']
             else if length skills > 200
               then errors @ [''Professional expertise must not exceed 200 characters'']
             else errors);
          availability = strip (get_str data ''availability'');
          errors =
            (if availability = [] then errors @ [''Deployment capacity is required'']
             else if availability \<notin> set VALID_AVAILABILITY
               then errors @ [''Deployment capacity must be one of: '' @
                                py_join '', '' VALID_AVAILABILITY]
             else errors)
      in (errors,
          \<lparr>clean_name = name, clean_skills = skills, clean_availability = availability\<rparr>))"

text \<open>Lines 159 to 168.\<close>

definition validate_register :: "form \<Rightarrow> ValidationError + volunteer_data" where
  "validate_register data =
     (case validate_register_fields data of
        (errors, cleaned) \<Rightarrow>
          if errors \<noteq> [] then Inl (ValidationError (py_join ''; '' errors))
          else Inr cleaned)"

section \<open>Models and services (\<^verbatim>\<open>models.py\<close>, \<^verbatim>\<open>services.py\<close>)\<close>

text \<open>
  A creation time is a reading of the clock (\<^verbatim>\<open>datetime.utcnow\<close>), passed to the
  operation that stores it. Timestamps are ordered as the readings are.
\<close>

type_synonym timestamp = nat

text \<open>The columns of \<^verbatim>\<open>CrisisCase\<close>; the table has no status column.\<close>

record CrisisCase =
  case_id :: nat
  title :: string
  description :: string
  severity :: int
  people_affected :: int
  urgency :: int
  available_resources :: int
  required_skill :: string
  priority_score :: int
  created_at :: timestamp

record Volunteer =
  volunteer_id :: nat
  name :: string
  skills :: string
  availability :: string
  registered_at :: timestamp

text \<open>The two tables of \<^verbatim>\<open>db\<close>, rows in insertion order.\<close>

record db =
  crisis_case_table :: "CrisisCase list"
  volunteer_table :: "Volunteer list"

definition empty_db :: db where
  "empty_db = \<lparr>crisis_case_table = [], volunteer_table = []\<rparr>"

text \<open>
  An integer primary key left out of an insert is assigned by the storage engine: one
  more than the largest key in the table, \<open>1\<close> in an empty table.
\<close>

definition next_id :: "nat list \<Rightarrow> nat" where
  "next_id ids = Suc (fold max ids 0)"

text \<open>The four \<^verbatim>\<open>CheckConstraint\<close>s of \<^verbatim>\<open>CrisisCase.__table_args__\<close>.\<close>

definition check_constraints :: "'a CrisisCase_scheme \<Rightarrow> bool" where
  "check_constraints c =
     ((severity c \<ge> 1 \<and> severity c \<le> 5) \<and> (urgency c \<ge> 1 \<and> urgency c \<le> 5) \<and>
      people_affected c \<ge> 0 \<and> available_resources c \<ge> 0)"

text \<open>
  An \<^verbatim>\<open>INTEGER\<close> of the storage engine (SQLite, the configured default) has 64
  bits; binding a larger Python integer raises \<^verbatim>\<open>OverflowError\<close> before any
  constraint is tested.
\<close>

definition sqlite_integer :: "int \<Rightarrow> bool" where
  "sqlite_integer n = (- (2 ^ 63) \<le> n \<and> n \<le> 2 ^ 63 - 1)"

definition bindable :: "'a CrisisCase_scheme \<Rightarrow> bool" where
  "bindable c =
     (sqlite_integer (severity c) \<and> sqlite_integer (people_affected c) \<and>
      sqlite_integer (urgency c) \<and> sqlite_integer (available_resources c) \<and>
      sqlite_integer (priority_score c))"

text \<open>
  What \<^verbatim>\<open>create_crisis\<close> can raise: arithmetic on \<^verbatim>\<open>None\<close> is a \<^verbatim>\<open>TypeError\<close>, an
  integer too large for its column an \<^verbatim>\<open>OverflowError\<close>, a violated check constraint
  an \<^verbatim>\<open>IntegrityError\<close> at commit. Other failures of the storage engine (the disk, the
  connection) are outside the model.
\<close>

datatype service_error = TypeError | OverflowError | IntegrityError

definition create_crisis ::
    "crisis_data \<Rightarrow> timestamp \<Rightarrow> db \<Rightarrow> service_error + (CrisisCase \<times> db)" where
  "create_crisis validated_data now s =
     (case (clean_severity validated_data, clean_people_affected validated_data,
            clean_urgency validated_data, clean_available_resources validated_data) of
        (Some sev, Some people, Some urg, Some res) \<Rightarrow>
          (let score = calculate_priority sev people urg res;
               crisis =
                 \<lparr>case_id = next_id (map case_id (crisis_case_table s)),
                  title = clean_title validated_data,
                  description = clean_description validated_data,
                  severity = sev,
                  people_affected = people,
                  urgency = urg,
                  available_resources = res,
                  required_skill = clean_required_skill validated_data,
                  priority_score = score,
                  created_at = now\<rparr>
           in if \<not> bindable crisis then Inl OverflowError
              else if check_constraints crisis
              then Inr (crisis, s\<lparr>crisis_case_table := crisis_case_table s @ [crisis]\<rparr>)
              else Inl IntegrityError)
      | _ \<Rightarrow> Inl TypeError)"

definition register_volunteer :: "volunteer_data \<Rightarrow> timestamp \<Rightarrow> db \<Rightarrow> Volunteer \<times> db" where
  "register_volunteer validated_data now s =
     (let v =
            \<lparr>volunteer_id = next_id (map volunteer_id (volunteer_table s)),
             name = clean_name validated_data,
             skills = clean_skills validated_data,
             availability = clean_availability validated_data,
             registered_at = now\<rparr>
      in (v, s\<lparr>volunteer_table := volunteer_table s @ [v]\<rparr>))"

text \<open>\<^verbatim>\<open>SELECT COUNT(*) ... WHERE p\<close>, as a scan of the table.\<close>

primrec sql_count :: "('r \<Rightarrow> bool) \<Rightarrow> 'r list \<Rightarrow> nat" where
  "sql_count p [] = 0"
| "sql_count p (r # rs) = (if p r then Suc (sql_count p rs) else sql_count p rs)"

text \<open>
  \<^verbatim>\<open>ORDER BY\<close>: the rows are put in the order \<open>before\<close> by insertion, rows that
  compare equal in every key keeping the order in which they are given. SQL leaves
  that order open; the queries below give the rows as SQLite does for these tables.
\<close>

primrec insert_row :: "('r \<Rightarrow> 'r \<Rightarrow> bool) \<Rightarrow> 'r \<Rightarrow> 'r list \<Rightarrow> 'r list" where
  "insert_row before x [] = [x]"
| "insert_row before x (y # ys) =
     (if before x y then x # y # ys else y # insert_row before x ys)"

definition order_by :: "('r \<Rightarrow> 'r \<Rightarrow> bool) \<Rightarrow> 'r list \<Rightarrow> 'r list" where
  "order_by before rows = foldr (insert_row before) rows []"

text \<open>\<^verbatim>\<open>priority_score DESC, created_at DESC\<close>.\<close>

definition priority_created_desc ::
    "'a CrisisCase_scheme \<Rightarrow> 'a CrisisCase_scheme \<Rightarrow> bool" where
  "priority_created_desc a b =
     (priority_score a > priority_score b \<or>
      (priority_score a = priority_score b \<and> created_at a \<ge> created_at b))"

record dashboard =
  total_cases :: nat
  high_priority_cases :: nat
  active_volunteers :: nat

definition get_dashboard_stats :: "db \<Rightarrow> dashboard" where
  "get_dashboard_stats s =
     \<lparr>total_cases = length (crisis_case_table s),
      high_priority_cases = sql_count (\<lambda>c. priority_score c \<ge> 20) (crisis_case_table s),
      active_volunteers = length (volunteer_table s)\<rparr>"

text \<open>
  Both list queries of the services are answered by walking an index of their table
  backwards (\<^verbatim>\<open>idx_priority_created\<close>, \<^verbatim>\<open>idx_registered_at\<close>), so among rows equal in
  every key the newest row comes first.
\<close>

definition get_all_cases_sorted :: "db \<Rightarrow> CrisisCase list" where
  "get_all_cases_sorted s = order_by priority_created_desc (rev (crisis_case_table s))"

definition get_all_volunteers :: "db \<Rightarrow> Volunteer list" where
  "get_all_volunteers s =
     order_by (\<lambda>a b. registered_at a \<ge> registered_at b) (rev (volunteer_table s))"

section \<open>Request handlers of the validated variant (\<^verbatim>\<open>app_refactored.py\<close>)\<close>

text \<open>
  A handler returns where the browser is sent, the message it flashes with its category,
  and the database after the request.
\<close>

datatype response =
  Redirect_cases | Redirect_volunteers | Redirect_referrer | Render_new_case
  | Render_register_volunteer

text \<open>
  \<^verbatim>\<open>new_case\<close> on POST. A \<^verbatim>\<open>ValidationError\<close> goes to \<^verbatim>\<open>handle_validation_error\<close>; any
  other exception is caught in the route, which rolls the session back.
\<close>

definition new_case :: "form \<Rightarrow> timestamp \<Rightarrow> db \<Rightarrow> response \<times> (string \<times> string) \<times> db" where
  "new_case request_form now s =
     (case validate_create request_form of
        Inl (ValidationError msg) \<Rightarrow> (Redirect_referrer, (msg, ''error''), s)
      | Inr validated_data \<Rightarrow>
          (case create_crisis validated_data now s of
             Inl e \<Rightarrow>
               (Render_new_case,
                (''Error creating crisis report. Please try again.'', ''error''), s)
           | Inr (crisis, s') \<Rightarrow>
               (Redirect_cases, (''Crisis report filed and prioritized'', ''success''), s')))"

text \<open>The POST branch of the route \<^verbatim>\<open>register_volunteer\<close>.\<close>

definition register_volunteer_route ::
    "form \<Rightarrow> timestamp \<Rightarrow> db \<Rightarrow> response \<times> (string \<times> string) \<times> db" where
  "register_volunteer_route request_form now s =
     (case validate_register request_form of
        Inl (ValidationError msg) \<Rightarrow> (Redirect_referrer, (msg, ''error''), s)
      | Inr validated_data \<Rightarrow>
          (case register_volunteer validated_data now s of
             (v, s') \<Rightarrow>
               (Redirect_volunteers,
                (''Personnel registered and ready for deployment'', ''success''), s')))"

section \<open>The direct variant (\<^verbatim>\<open>app.py\<close>)\<close>

text \<open>
  The table \<^verbatim>\<open>cases\<close> of \<^verbatim>\<open>init_database\<close> has the columns of \<^verbatim>\<open>CrisisCase\<close> and a
  status; \<^verbatim>\<open>created_at\<close> holds \<^verbatim>\<open>datetime.utcnow().isoformat()\<close>, whose text order is
  the order of the clock readings. In the table \<^verbatim>\<open>volunteers\<close> the availability is an
  integer flag.
\<close>

record case_row = CrisisCase +
  status :: string

record volunteer_row =
  row_id :: nat
  row_name :: string
  row_skills :: string
  row_availability :: int
  row_registered_at :: timestamp

record app_db =
  cases_table :: "case_row list"
  volunteers_table :: "volunteer_row list"

text \<open>\<^verbatim>\<open>init_database\<close> on a fresh file: both tables exist and are empty.\<close>

definition init_database :: app_db where
  "init_database = \<lparr>cases_table = [], volunteers_table = []\<rparr>"

text \<open>
  A missing form key is a 400 response, \<^verbatim>\<open>int\<close> on a malformed value a
  \<^verbatim>\<open>ValueError\<close>, an integer too large for its column an \<^verbatim>\<open>OverflowError\<close>, a
  violated \<^verbatim>\<open>CHECK\<close> of the table an \<^verbatim>\<open>IntegrityError\<close>; none of them commits. A
  float division by zero is a \<^verbatim>\<open>ZeroDivisionError\<close>.
\<close>

datatype app_error =
  BadRequestKeyError | ValueError | SqliteOverflowError | SqliteIntegrityError
  | ZeroDivisionError

definition form_item :: "form \<Rightarrow> string \<Rightarrow> app_error + string" where
  "form_item request_form key =
     (case request_form key of None \<Rightarrow> Inl BadRequestKeyError | Some v \<Rightarrow> Inr v)"

definition form_int :: "form \<Rightarrow> string \<Rightarrow> app_error + int" where
  "form_int request_form key =
     (case request_form key of
        None \<Rightarrow> Inl BadRequestKeyError
      | Some v \<Rightarrow> (case py_int v of None \<Rightarrow> Inl ValueError | Some n \<Rightarrow> Inr n))"

text \<open>\<^verbatim>\<open>new_case\<close> of \<^verbatim>\<open>app.py\<close> on POST: no validation, status \<^verbatim>\<open>'Pending'\<close>.\<close>

definition app_new_case :: "form \<Rightarrow> timestamp \<Rightarrow> app_db \<Rightarrow> app_error + app_db" where
  "app_new_case request_form now s =
     (case form_item request_form ''title'' of Inl e \<Rightarrow> Inl e | Inr title' \<Rightarrow>
      case form_item request_form ''description'' of Inl e \<Rightarrow> Inl e | Inr description' \<Rightarrow>
      case form_int request_form ''severity'' of Inl e \<Rightarrow> Inl e | Inr severity' \<Rightarrow>
      case form_int request_form ''people_affected'' of Inl e \<Rightarrow> Inl e | Inr people_affected' \<Rightarrow>
      case form_int request_form ''urgency'' of Inl e \<Rightarrow> Inl e | Inr urgency' \<Rightarrow>
      case form_int request_form ''available_resources'' of Inl e \<Rightarrow> Inl e
      | Inr available_resources' \<Rightarrow>
      case form_item request_form ''required_skill'' of Inl e \<Rightarrow> Inl e | Inr required_skill' \<Rightarrow>
        (let score =
               app_calculate_priority severity' people_affected' urgency' available_resources';
             row =
               \<lparr>case_id = next_id (map case_id (cases_table s)),
                title = title',
                description = description',
                severity = severity',
                people_affected = people_affected',
                urgency = urgency',
                available_resources = available_resources',
                required_skill = required_skill',
                priority_score = score,
                created_at = now,
                status = ''Pending''\<rparr>
         in if \<not> bindable row then Inl SqliteOverflowError
            else if check_constraints row
            then Inr (s\<lparr>cases_table := cases_table s @ [row]\<rparr>)
            else Inl SqliteIntegrityError))"

text \<open>\<^verbatim>\<open>register_volunteer\<close> of \<^verbatim>\<open>app.py\<close> on POST: the availability flag is always 1.\<close>

definition app_register_volunteer :: "form \<Rightarrow> timestamp \<Rightarrow> app_db \<Rightarrow> app_error + app_db" where
  "app_register_volunteer request_form now s =
     (case form_item request_form ''name'' of Inl e \<Rightarrow> Inl e | Inr name' \<Rightarrow>
      case form_item request_form ''skills'' of Inl e \<Rightarrow> Inl e | Inr skills' \<Rightarrow>
      case form_item request_form ''availability'' of Inl e \<Rightarrow> Inl e | Inr availability_text \<Rightarrow>
        (let availability' = 1;
             row =
               \<lparr>row_id = next_id (map row_id (volunteers_table s)),
                row_name = name',
                row_skills = skills',
                row_availability = availability',
                row_registered_at = now\<rparr>
         in Inr (s\<lparr>volunteers_table := volunteers_table s @ [row]\<rparr>)))"

text \<open>
  The route \<^verbatim>\<open>cases\<close> of \<^verbatim>\<open>app.py\<close>; its query sorts the rows read in table order, so
  rows equal in both keys keep that order.
\<close>

definition app_cases :: "app_db \<Rightarrow> case_row list" where
  "app_cases s = order_by priority_created_desc (cases_table s)"

section \<open>Floating-point arithmetic of the dashboard\<close>

text \<open>
  Python's \<^verbatim>\<open>float\<close> is IEEE 754 binary64. A finite float is a rational number, and
  every operation used by the dashboard returns the exact result rounded to the nearest
  float, ties to the even significand. The model below is exact for results of magnitude
  below \<open>2 ^ 1024\<close>, which covers every value the dashboard computes.
\<close>

text \<open>\<^verbatim>\<open>int.bit_length\<close> on a positive integer.\<close>

function bit_length :: "int \<Rightarrow> nat" where
  "bit_length n = (if n \<le> 0 then 0 else Suc (bit_length (n div 2)))"
  by pat_completeness auto
termination
  by (relation "measure nat") auto

declare bit_length.simps [simp del]

definition pow2 :: "int \<Rightarrow> rat" where
  "pow2 e = (if e \<ge> 0 then 2 ^ nat e else 1 / 2 ^ nat (- e))"

text \<open>The exponent \<open>e\<close> with \<open>2 ^ e \<le> q < 2 ^ (e + 1)\<close>, for \<open>q > 0\<close>.\<close>

definition binary_exponent :: "rat \<Rightarrow> int" where
  "binary_exponent q =
     (case quotient_of q of
        (a, b) \<Rightarrow>
          (let d = int (bit_length a) - int (bit_length b)
           in if pow2 d \<le> q then d else d - 1))"

definition round_half_even :: "rat \<Rightarrow> int" where
  "round_half_even x =
     (let f = \<lfloor>x\<rfloor>; r = x - of_int f
      in if r < 1 / 2 then f
         else if r > 1 / 2 then f + 1
         else if even f then f else f + 1)"

text \<open>
  Rounding to binary64: 53 significant bits, the spacing never below \<open>2 ^ - 1074\<close>.
\<close>

definition to_double :: "rat \<Rightarrow> rat" where
  "to_double q =
     (if q = 0 then 0
      else (let ulp = pow2 (max (binary_exponent \<bar>q\<bar>) (- 1022) - 52)
            in of_int (round_half_even (q / ulp)) * ulp))"

text \<open>
  \<^verbatim>\<open>a / b\<close> on integers: \<^verbatim>\<open>ZeroDivisionError\<close> when \<open>b\<close> is 0, otherwise the quotient,
  correctly rounded.
\<close>

definition py_truediv :: "int \<Rightarrow> int \<Rightarrow> app_error + rat" where
  "py_truediv a b =
     (if b = 0 then Inl ZeroDivisionError else Inr (to_double (of_int a / of_int b)))"

text \<open>\<^verbatim>\<open>x * y\<close> on floats (an integer operand is converted first).\<close>

definition float_mul :: "rat \<Rightarrow> rat \<Rightarrow> rat" where
  "float_mul x y = to_double (to_double x * to_double y)"

text \<open>
  \<^verbatim>\<open>round(x, ndigits)\<close> on a float: the decimal with \<open>ndigits\<close> places nearest to the
  exact value of \<open>x\<close> (ties to the even last digit), converted back to the nearest float.
\<close>

definition py_round :: "rat \<Rightarrow> nat \<Rightarrow> rat" where
  "py_round x ndigits =
     to_double (of_int (round_half_even (x * 10 ^ ndigits)) / 10 ^ ndigits)"

text \<open>
  The route \<^verbatim>\<open>index\<close> of \<^verbatim>\<open>app.py\<close>: five statistics, each query a scan of its table.
  The route catches no exception, so an error of a division is the result of the request.
\<close>

record app_dashboard = dashboard +
  resolution_rate :: rat
  volunteer_utilization :: rat

definition app_index :: "app_db \<Rightarrow> app_error + app_dashboard" where
  "app_index s =
     (let total = length (cases_table s);
          high_priority = sql_count (\<lambda>c. priority_score c \<ge> 20) (cases_table s);
          active = sql_count (\<lambda>v. row_availability v = 1) (volunteers_table s);
          completed_cases = sql_count (\<lambda>c. status c = ''Completed'') (cases_table s)
      in case (if total > 0
               then (case py_truediv (int completed_cases) (int total) of
                       Inl e \<Rightarrow> Inl e
                     | Inr q \<Rightarrow> Inr (py_round (float_mul q 100) 1))
               else Inr 0) of
           Inl e \<Rightarrow> Inl e
         | Inr rate \<Rightarrow>
             (let active_cases = sql_count (\<lambda>c. status c = ''Active'') (cases_table s)
              in case (if active > 0
                       then (case py_truediv (int active_cases) (int active) of
                               Inl e \<Rightarrow> Inl e
                             | Inr q \<Rightarrow>
                                 (let u = py_round (float_mul q 100) 1
                                  in Inr (if u > 100 then 100 else u)))
                       else Inr 0) of
                   Inl e \<Rightarrow> Inl e
                 | Inr utilization \<Rightarrow>
                     Inr \<lparr>total_cases = total,
                          high_priority_cases = high_priority,
                          active_volunteers = active,
                          resolution_rate = rate,
                          volunteer_utilization = utilization\<rparr>))"

section \<open>Field rules and reachable states\<close>

text \<open>
  The field rules of the data model: a text field is trimmed and its length must lie
  within the bounds of the field (so it is not empty); an integer field must parse and
  lie within its range; the availability must be one of the fixed values.
\<close>

definition text_rule :: "nat \<Rightarrow> nat \<Rightarrow> string \<Rightarrow> bool" where
  "text_rule lo hi raw = (lo \<le> length (strip raw) \<and> length (strip raw) \<le> hi)"

definition int_rule :: "int \<Rightarrow> int \<Rightarrow> int option \<Rightarrow> bool" where
  "int_rule lo hi parsed = (case parsed of None \<Rightarrow> False | Some n \<Rightarrow> lo \<le> n \<and> n \<le> hi)"

datatype crisis_field =
  Title | Description | Severity | Urgency | People_affected | Available_resources
  | Required_skill

definition crisis_fields :: "crisis_field list" where
  "crisis_fields =
     [Title, Description, Severity, Urgency, People_affected, Available_resources,
      Required_skill]"

fun crisis_rule_ok :: "form \<Rightarrow> crisis_field \<Rightarrow> bool" where
  "crisis_rule_ok data Title = text_rule 5 200 (get_str data ''title'')"
| "crisis_rule_ok data Description = text_rule 20 5000 (get_str data ''description'')"
| "crisis_rule_ok data Severity = int_rule 1 5 (get_int data ''severity'')"
| "crisis_rule_ok data Urgency = int_rule 1 5 (get_int data ''urgency'')"
| "crisis_rule_ok data People_affected = int_rule 0 10000000 (get_int data ''people_affected'')"
| "crisis_rule_ok data Available_resources =
     int_rule 0 1000000 (get_int data ''available_resources'')"
| "crisis_rule_ok data Required_skill = text_rule 3 100 (get_str data ''required_skill'')"

text \<open>The messages that the check of one field appends in \<^verbatim>\<open>validate_create\<close>.\<close>

fun crisis_messages :: "form \<Rightarrow> crisis_field \<Rightarrow> string list" where
  "crisis_messages data Title =
     (let title = strip (get_str data ''title'')
      in if title = [] then [''Situation title is required'']
         else if length title < 5 then [''Situation title must be at least 5 characters'']
         else if length title > 200 then [''Situation title must not exceed 200 characters'']
         else [])"
| "crisis_messages data Description =
     (let description = strip (get_str data ''description'')
      in if description = [] then [''Situation assessment is required'']
         else if length description < 20
           then [''Situation assessment must be at least 20 characters'']
         else if length description > 5000
           then [''Situation assessment must not exceed 5000 characters'']
         else [])"
| "crisis_messages data Severity =
     (case get_int data ''severity'' of
        Some n \<Rightarrow> if \<not> (1 \<le> n \<and> n \<le> 5) then [''Severity must be between 1 and 5''] else []
      | None \<Rightarrow> [''Severity must be a valid number''])"
| "crisis_messages data Urgency =
     (case get_int data ''urgency'' of
        Some n \<Rightarrow> if \<not> (1 \<le> n \<and> n \<le> 5) then [''Urgency must be between 1 and 5''] else []
      | None \<Rightarrow> [''Urgency must be a valid number''])"
| "crisis_messages data People_affected =
     (case get_int data ''people_affected'' of
        Some n \<Rightarrow>
          if n < 0 then [''Population impact cannot be negative'']
          else if n > 10000000 then [''Population impact exceeds maximum value'']
          else []
      | None \<Rightarrow> [''Population impact must be a valid number''])"
| "crisis_messages data Available_resources =
     (case get_int data ''available_resources'' of
        Some n \<Rightarrow>
          if n < 0 then [''Current resources cannot be negative'']
          else if n > 1000000 then [''Current resources exceeds maximum value'']
          else []
      | None \<Rightarrow> [''Current resources must be a valid number''])"
| "crisis_messages data Required_skill =
     (let required_skill = strip (get_str data ''required_skill'')
      in if required_skill = [] then [''Critical expertise is required'']
         else if length required_skill < 3
           then [''Critical expertise must be at least 3 characters'']
         else if length required_skill > 100
           then [''Critical expertise must not exceed 100 characters'']
         else [])"

datatype volunteer_field = Name | Skills | Availability

definition volunteer_fields :: "volunteer_field list" where
  "volunteer_fields = [Name, Skills, Availability]"

fun volunteer_rule_ok :: "form \<Rightarrow> volunteer_field \<Rightarrow> bool" where
  "volunteer_rule_ok data Name = text_rule 2 100 (get_str data ''name'')"
| "volunteer_rule_ok data Skills = text_rule 3 200 (get_str data ''skills'')"
| "volunteer_rule_ok data Availability =
     (strip (get_str data ''availability'') \<in> set VALID_AVAILABILITY)"

text \<open>The messages that the check of one field appends in \<^verbatim>\<open>validate_register\<close>.\<close>

fun volunteer_messages :: "form \<Rightarrow> volunteer_field \<Rightarrow> string list" where
  "volunteer_messages data Name =
     (let name = strip (get_str data ''name'')
      in if name = [] then [''Full name is required'']
         else if length name < 2 then [''Full name must be at least 2 characters'']
         else if length name > 100 then [''Full name must not exceed 100 characters'']
         else [])"
| "volunteer_messages data Skills =
     (let skills = strip (get_str data ''skills'')
      in if skills = [] then [''Professional expertise is required'']
         else if length skills < 3
           then [''Professional expertise must be at least 3 characters'']
         else if length skills > 200
           then [''Professional expertise must not exceed 200 characters'']
         else [])"
| "volunteer_messages data Availability =
     (let availability = strip (get_str data ''availability'')
      in if availability = [] then [''Deployment capacity is required'']
         else if availability \<notin> set VALID_AVAILABILITY
           then [''Deployment capacity must be one of: '' @ py_join '', '' VALID_AVAILABILITY]
         else [])"

text \<open>
  The states of the database of the validated variant: it starts empty, and the two POST
  routes are the only code that writes to it.
\<close>

inductive reachable :: "db \<Rightarrow> bool" where
  reachable_empty: "reachable empty_db"
| reachable_new_case:
    "reachable s \<Longrightarrow> new_case request_form now s = (r, flashed, s') \<Longrightarrow> reachable s'"
| reachable_register_volunteer:
    "reachable s \<Longrightarrow> register_volunteer_route request_form now s = (r, flashed, s')
       \<Longrightarrow> reachable s'"

text \<open>The invariant of the case table: each stored score is the formula of its row.\<close>

definition score_matches :: "'a CrisisCase_scheme \<Rightarrow> bool" where
  "score_matches c =
     (priority_score c =
        calculate_priority (severity c) (people_affected c) (urgency c) (available_resources c))"

section \<open>Sample requests and tables\<close>

text \<open>The first case and two of the volunteers of \<^verbatim>\<open>seed_database\<close>, as form data and rows.\<close>

definition flood_form :: form where
  "flood_form =
     [''title'' \<mapsto> ''Severe Flooding in District 7'',
      ''description'' \<mapsto> ''Heavy rainfall caused river overflow affecting residential areas.'',
      ''severity'' \<mapsto> ''5'',
      ''people_affected'' \<mapsto> ''850'',
      ''urgency'' \<mapsto> ''5'',
      ''available_resources'' \<mapsto> ''12'',
      ''required_skill'' \<mapsto> ''Rescue Operations'']"

definition chen_form :: form where
  "chen_form =
     [''name'' \<mapsto> ''Dr. Sarah Chen'',
      ''skills'' \<mapsto> ''Emergency Medicine, Trauma Care, Triage'',
      ''availability'' \<mapsto> ''Full-time'']"

definition sample_case :: "nat \<Rightarrow> int \<Rightarrow> timestamp \<Rightarrow> string \<Rightarrow> case_row" where
  "sample_case i people now st =
     \<lparr>case_id = i,
      title = ''Severe Flooding in District 7'',
      description = ''Heavy rainfall caused river overflow affecting residential areas.'',
      severity = 5,
      people_affected = people,
      urgency = 5,
      available_resources = 12,
      required_skill = ''Rescue Operations'',
      priority_score = app_calculate_priority 5 people 5 12,
      created_at = now,
      status = st\<rparr>"

definition stored_case :: "nat \<Rightarrow> int \<Rightarrow> timestamp \<Rightarrow> CrisisCase" where
  "stored_case i people now =
     \<lparr>case_id = i,
      title = ''Severe Flooding in District 7'',
      description = ''Heavy rainfall caused river overflow affecting residential areas.'',
      severity = 5,
      people_affected = people,
      urgency = 5,
      available_resources = 12,
      required_skill = ''Rescue Operations'',
      priority_score = calculate_priority 5 people 5 12,
      created_at = now\<rparr>"

definition stored_volunteer :: "nat \<Rightarrow> timestamp \<Rightarrow> Volunteer" where
  "stored_volunteer i now =
     \<lparr>volunteer_id = i,
      name = ''Dr. Sarah Chen'',
      skills = ''Emergency Medicine, Trauma Care, Triage'',
      availability = ''Full-time'',
      registered_at = now\<rparr>"


text \<open>
  A registration handed to \<^verbatim>\<open>VolunteerService.register_volunteer\<close> itself, which
  stores what it is given.
\<close>

definition anderson_data :: volunteer_data where
  "anderson_data =
     \<lparr>clean_name = ''Dr. Lisa Anderson'',
      clean_skills = ''Public Health, Sanitation, Water Quality'',
      clean_availability = ''Unavailable''\<rparr>"

definition sample_volunteers :: "volunteer_row list" where
  "sample_volunteers =
     [\<lparr>row_id = 1, row_name = ''Dr. Sarah Chen'',
       row_skills = ''Emergency Medicine, Trauma Care, Triage'',
       row_availability = 1, row_registered_at = 1\<rparr>,
      \<lparr>row_id = 2, row_name = ''Dr. Lisa Anderson'',
       row_skills = ''Public Health, Sanitation, Water Quality'',
       row_availability = 0, row_registered_at = 2\<rparr>]"

text \<open>The form keys that \<^verbatim>\<open>new_case\<close> of \<^verbatim>\<open>app.py\<close> reads with \<^verbatim>\<open>request.form[key]\<close>.\<close>

definition crisis_keys :: "string list" where
  "crisis_keys =
     [''title'', ''description'', ''severity'', ''people_affected'', ''urgency'',
      ''available_resources'', ''required_skill'']"

text \<open>A submission that breaks every rule, and one that leaves the two counts out.\<close>

definition rejected_form :: form where
  "rejected_form =
     [''title'' \<mapsto> ''Hi'',
      ''description'' \<mapsto> ''Too short'',
      ''severity'' \<mapsto> ''high'',
      ''people_affected'' \<mapsto> ''-1'',
      ''urgency'' \<mapsto> ''9'',
      ''available_resources'' \<mapsto> ''2000000'',
      ''required_skill'' \<mapsto> '' '']"

definition rejected_volunteer_form :: form where
  "rejected_volunteer_form =
     [''name'' \<mapsto> ''J'', ''skills'' \<mapsto> ''IT'', ''availability'' \<mapsto> ''Never'']"

definition bridge_form :: form where
  "bridge_form =
     [''title'' \<mapsto> ''Bridge Infrastructure Failure'',
      ''description'' \<mapsto> ''Major bridge showing structural weakness. Traffic rerouted.'',
      ''severity'' \<mapsto> ''4'',
      ''urgency'' \<mapsto> ''4'',
      ''required_skill'' \<mapsto> ''Structural Engineering, Civil Engineering'']"

section \<open>Properties of the priority calculator\<close>

text \<open>
  Claim C1. For every severity in [1,5], people_affected \<ge> 0, urgency in [1,5] and
  available_resources \<ge> 0, both copies of the priority calculator return exactly
  severity*3 + people_affected*2 + urgency*4 - available_resources*2. The result is a
  function of the four arguments only (the model has no state to change), it is not
  clamped (an admissible input gives a negative score), and the inputs 5, 850, 5, 12
  give 1711.
\<close>

theorem calculate_priority_formula:
  "(\<forall>severity people_affected urgency available_resources.
      1 \<le> severity \<and> severity \<le> 5 \<and> 0 \<le> people_affected \<and>
      1 \<le> urgency \<and> urgency \<le> 5 \<and> 0 \<le> available_resources \<longrightarrow>
        calculate_priority severity people_affected urgency available_resources =
          severity * 3 + people_affected * 2 + urgency * 4 - available_resources * 2 \<and>
        app_calculate_priority severity people_affected urgency available_resources =
          severity * 3 + people_affected * 2 + urgency * 4 - available_resources * 2)
   \<and> calculate_priority 1 0 1 10 = - 13
   \<and> calculate_priority 5 850 5 12 = 1711
   \<and> app_calculate_priority 5 850 5 12 = 1711"
  by (simp add: calculate_priority_def app_calculate_priority_def)

theorem calculate_priority_formula_witness:
  "(1::int) \<le> 3 \<and> (3::int) \<le> 5 \<and> (0::int) \<le> 40 \<and> (1::int) \<le> 2 \<and> (2::int) \<le> 5 \<and> (0::int) \<le> 7
   \<and> calculate_priority 3 40 2 7 = 83 \<and> app_calculate_priority 3 40 2 7 = 83"
  using calculate_priority_formula by simp

section \<open>Validation: messages and field rules\<close>

lemma if_append_same: "(if c then xs @ ys else xs) = xs @ (if c then ys else [])"
  by simp

lemma if_append_both: "(if c then xs @ ys else xs @ zs) = xs @ (if c then ys else zs)"
  by simp

lemma case_option_append:
  "(case p of None \<Rightarrow> (a, xs @ zs) | Some v \<Rightarrow> (f v, xs @ g v)) =
     (case p of None \<Rightarrow> a | Some v \<Rightarrow> f v,
      xs @ (case p of None \<Rightarrow> zs | Some v \<Rightarrow> g v))"
  by (cases p) auto

lemma case_option_id: "(case p of None \<Rightarrow> None | Some v \<Rightarrow> Some v) = p"
  by (cases p) auto

lemma validate_create_fields_errors:
  "fst (validate_create_fields data) = concat (map (crisis_messages data) crisis_fields)"
  unfolding validate_create_fields_def crisis_fields_def
  by (simp add: Let_def if_append_same if_append_both case_option_append
        split del: if_split cong del: if_weak_cong option.case_cong_weak)

lemma validate_create_fields_cleaned:
  "snd (validate_create_fields data) =
     \<lparr>clean_title = strip (get_str data ''title''),
      clean_description = strip (get_str data ''description''),
      clean_severity = get_int data ''severity'',
      clean_urgency = get_int data ''urgency'',
      clean_people_affected = get_int data ''people_affected'',
      clean_available_resources = get_int data ''available_resources'',
      clean_required_skill = strip (get_str data ''required_skill'')\<rparr>"
  unfolding validate_create_fields_def
  by (simp add: Let_def if_append_same if_append_both case_option_append case_option_id
        split del: if_split cong del: if_weak_cong option.case_cong_weak)

lemma validate_register_fields_errors:
  "fst (validate_register_fields data) =
     concat (map (volunteer_messages data) volunteer_fields)"
  unfolding validate_register_fields_def volunteer_fields_def
  by (simp add: Let_def if_append_same if_append_both
        split del: if_split cong del: if_weak_cong)

lemma validate_register_fields_cleaned:
  "snd (validate_register_fields data) =
     \<lparr>clean_name = strip (get_str data ''name''),
      clean_skills = strip (get_str data ''skills''),
      clean_availability = strip (get_str data ''availability'')\<rparr>"
  unfolding validate_register_fields_def
  by (simp add: Let_def)

lemma crisis_messages_length:
  "length (crisis_messages data k) = (if crisis_rule_ok data k then 0 else 1)"
  by (cases k) (auto simp: Let_def text_rule_def int_rule_def split: option.splits)

lemma volunteer_messages_length:
  "length (volunteer_messages data k) = (if volunteer_rule_ok data k then 0 else 1)"
  by (cases k) (auto simp: Let_def text_rule_def VALID_AVAILABILITY_def)

lemma crisis_fields_all: "k \<in> set crisis_fields"
  by (cases k) (simp_all add: crisis_fields_def)

lemma volunteer_fields_all: "k \<in> set volunteer_fields"
  by (cases k) (simp_all add: volunteer_fields_def)

lemma length_concat_flags:
  assumes "\<And>k. length (f k) = (if ok k then 0 else 1)"
  shows "length (concat (map f ks)) = length (filter (\<lambda>k. \<not> ok k) ks)"
  by (induction ks) (simp_all add: assms)

lemma concat_flags_empty:
  assumes "\<And>k. length (f k) = (if ok k then 0 else 1)"
  shows "concat (map f ks) = [] \<longleftrightarrow> (\<forall>k\<in>set ks. ok k)"
proof -
  have "f k = [] \<longleftrightarrow> ok k" for k
    using assms [of k] by (cases "ok k") auto
  then show ?thesis by simp
qed

lemma validate_create_errors_empty:
  "fst (validate_create_fields data) = [] \<longleftrightarrow> (\<forall>k. crisis_rule_ok data k)"
proof -
  have "concat (map (crisis_messages data) crisis_fields) = [] \<longleftrightarrow>
          (\<forall>k\<in>set crisis_fields. crisis_rule_ok data k)"
    by (rule concat_flags_empty) (rule crisis_messages_length)
  moreover have "(\<forall>k\<in>set crisis_fields. crisis_rule_ok data k) \<longleftrightarrow>
          (\<forall>k. crisis_rule_ok data k)"
    using crisis_fields_all by blast
  ultimately show ?thesis
    by (simp only: validate_create_fields_errors)
qed

lemma validate_register_errors_empty:
  "fst (validate_register_fields data) = [] \<longleftrightarrow> (\<forall>k. volunteer_rule_ok data k)"
proof -
  have "concat (map (volunteer_messages data) volunteer_fields) = [] \<longleftrightarrow>
          (\<forall>k\<in>set volunteer_fields. volunteer_rule_ok data k)"
    by (rule concat_flags_empty) (rule volunteer_messages_length)
  moreover have "(\<forall>k\<in>set volunteer_fields. volunteer_rule_ok data k) \<longleftrightarrow>
          (\<forall>k. volunteer_rule_ok data k)"
    using volunteer_fields_all by blast
  ultimately show ?thesis
    by (simp only: validate_register_fields_errors)
qed

lemma validate_create_cases:
  "validate_create data =
     (if \<forall>k. crisis_rule_ok data k then Inr (snd (validate_create_fields data))
      else Inl (ValidationError (py_join ''; '' (fst (validate_create_fields data)))))"
proof (cases "validate_create_fields data")
  case (Pair errors cleaned)
  then have "errors = [] \<longleftrightarrow> (\<forall>k. crisis_rule_ok data k)"
    using validate_create_errors_empty [of data] by simp
  with Pair show ?thesis
    by (simp add: validate_create_def)
qed

lemma validate_register_cases:
  "validate_register data =
     (if \<forall>k. volunteer_rule_ok data k then Inr (snd (validate_register_fields data))
      else Inl (ValidationError (py_join ''; '' (fst (validate_register_fields data)))))"
proof (cases "validate_register_fields data")
  case (Pair errors cleaned)
  then have "errors = [] \<longleftrightarrow> (\<forall>k. volunteer_rule_ok data k)"
    using validate_register_errors_empty [of data] by simp
  with Pair show ?thesis
    by (simp add: validate_register_def)
qed

text \<open>
  Claim C3. Validation returns a cleaned record or raises one aggregate error. Every
  field is checked whatever the earlier checks found: the error list is the
  concatenation, over all fields in order, of the messages of each field; a field
  contributes exactly one message when its rule is violated and none otherwise, so the
  number of messages is the number of violated fields. The error is raised if and only
  if some rule is violated, and it carries the messages joined by \<^verbatim>\<open>'; '\<close>. This holds
  for \<^verbatim>\<open>validate_create\<close> and for \<^verbatim>\<open>validate_register\<close>.
\<close>

theorem validation_collects_every_violation:
  "fst (validate_create_fields data) = concat (map (crisis_messages data) crisis_fields)
   \<and> (\<forall>k. length (crisis_messages data k) = (if crisis_rule_ok data k then 0 else 1))
   \<and> length (fst (validate_create_fields data)) =
       length (filter (\<lambda>k. \<not> crisis_rule_ok data k) crisis_fields)
   \<and> validate_create data =
       (if \<forall>k. crisis_rule_ok data k then Inr (snd (validate_create_fields data))
        else Inl (ValidationError (py_join ''; '' (fst (validate_create_fields data)))))
   \<and> fst (validate_register_fields vdata) =
       concat (map (volunteer_messages vdata) volunteer_fields)
   \<and> (\<forall>k. length (volunteer_messages vdata k) = (if volunteer_rule_ok vdata k then 0 else 1))
   \<and> length (fst (validate_register_fields vdata)) =
       length (filter (\<lambda>k. \<not> volunteer_rule_ok vdata k) volunteer_fields)
   \<and> validate_register vdata =
       (if \<forall>k. volunteer_rule_ok vdata k then Inr (snd (validate_register_fields vdata))
        else Inl (ValidationError (py_join ''; '' (fst (validate_register_fields vdata)))))"
proof -
  have "length (fst (validate_create_fields data)) =
          length (filter (\<lambda>k. \<not> crisis_rule_ok data k) crisis_fields)"
    unfolding validate_create_fields_errors
    by (rule length_concat_flags) (rule crisis_messages_length)
  moreover have "length (fst (validate_register_fields vdata)) =
          length (filter (\<lambda>k. \<not> volunteer_rule_ok vdata k) volunteer_fields)"
    unfolding validate_register_fields_errors
    by (rule length_concat_flags) (rule volunteer_messages_length)
  ultimately show ?thesis
    using validate_create_cases [of data] validate_register_cases [of vdata]
    by (simp only: validate_create_fields_errors validate_register_fields_errors
          crisis_messages_length volunteer_messages_length simp_thms)
qed

lemma rejected_form_errors:
  "fst (validate_create_fields rejected_form) =
     [''Situation title must be at least 5 characters'',
      ''Situation assessment must be at least 20 characters'',
      ''Severity must be a valid number'',
      ''Urgency must be between 1 and 5'',
      ''Population impact cannot be negative'',
      ''Current resources exceeds maximum value'',
      ''Critical expertise is required'']"
  unfolding validate_create_fields_errors by code_simp

lemma rejected_volunteer_form_errors:
  "fst (validate_register_fields rejected_volunteer_form) =
     [''Full name must be at least 2 characters'',
      ''Professional expertise must be at least 3 characters'',
      ''Deployment capacity must be one of: Full-time, Part-time, Weekends, On-call'']"
  unfolding validate_register_fields_errors by code_simp

theorem validation_collects_every_violation_witness:
  "length (filter (\<lambda>k. \<not> crisis_rule_ok rejected_form k) crisis_fields) = 7
   \<and> validate_create rejected_form =
       Inl (ValidationError
         (''Situation title must be at least 5 characters; '' @
          ''Situation assessment must be at least 20 characters; '' @
          ''Severity must be a valid number; '' @
          ''Urgency must be between 1 and 5; '' @
          ''Population impact cannot be negative; '' @
          ''Current resources exceeds maximum value; '' @
          ''Critical expertise is required''))
   \<and> length (filter (\<lambda>k. \<not> volunteer_rule_ok rejected_volunteer_form k) volunteer_fields) = 3
   \<and> validate_register rejected_volunteer_form =
       Inl (ValidationError
         (''Full name must be at least 2 characters; '' @
          ''Professional expertise must be at least 3 characters; '' @
          ''Deployment capacity must be one of: Full-time, Part-time, Weekends, On-call''))"
proof -
  have c: "\<not> (\<forall>k. crisis_rule_ok rejected_form k)"
  proof
    assume "\<forall>k. crisis_rule_ok rejected_form k"
    then have "crisis_rule_ok rejected_form Severity" ..
    then show False by code_simp
  qed
  have v: "\<not> (\<forall>k. volunteer_rule_ok rejected_volunteer_form k)"
  proof
    assume "\<forall>k. volunteer_rule_ok rejected_volunteer_form k"
    then have "volunteer_rule_ok rejected_volunteer_form Name" ..
    then show False by code_simp
  qed
  from validation_collects_every_violation [of rejected_form rejected_volunteer_form] c v
  show ?thesis
    unfolding rejected_form_errors rejected_volunteer_form_errors
    by simp
qed

section \<open>Rejected submissions\<close>

lemma py_join_nonempty: "xs \<noteq> [] \<Longrightarrow> hd xs \<noteq> [] \<Longrightarrow> py_join sep xs \<noteq> []"
  by (induction sep xs rule: py_join.induct) auto

lemma py_join_snoc: "\<exists>pre. py_join sep (xs @ [m]) = pre @ m"
proof (induction sep xs rule: py_join.induct)
  case (1 sep)
  show ?case by simp
next
  case (2 sep x)
  have "py_join sep ([x] @ [m]) = (x @ sep) @ m" by simp
  then show ?case by blast
next
  case (3 sep x y ys)
  then obtain pre where "py_join sep ((y # ys) @ [m]) = pre @ m" by blast
  then have "py_join sep ((x # y # ys) @ [m]) = (x @ sep @ pre) @ m" by simp
  then show ?case by blast
qed

lemma crisis_messages_nonempty: "m \<in> set (crisis_messages data k) \<Longrightarrow> m \<noteq> []"
  by (cases k) (auto simp: Let_def split: option.splits if_splits)

lemma volunteer_messages_nonempty: "m \<in> set (volunteer_messages data k) \<Longrightarrow> m \<noteq> []"
  by (cases k) (auto simp: Let_def split: if_splits)

lemma validate_create_rejects:
  assumes "\<not> crisis_rule_ok data k"
  shows "\<exists>msg. msg \<noteq> [] \<and> validate_create data = Inl (ValidationError msg)"
proof -
  let ?errors = "fst (validate_create_fields data)"
  from assms have ne: "?errors \<noteq> []"
    using validate_create_errors_empty [of data] by blast
  then have "hd ?errors \<in> set ?errors" by simp
  then have "hd ?errors \<noteq> []"
    unfolding validate_create_fields_errors using crisis_messages_nonempty by auto
  with ne have "py_join ''; '' ?errors \<noteq> []" by (rule py_join_nonempty)
  moreover from assms
  have "validate_create data = Inl (ValidationError (py_join ''; '' ?errors))"
    using validate_create_cases [of data] by auto
  ultimately show ?thesis by blast
qed

lemma validate_register_rejects:
  assumes "\<not> volunteer_rule_ok data k"
  shows "\<exists>msg. msg \<noteq> [] \<and> validate_register data = Inl (ValidationError msg)"
proof -
  let ?errors = "fst (validate_register_fields data)"
  from assms have ne: "?errors \<noteq> []"
    using validate_register_errors_empty [of data] by blast
  then have "hd ?errors \<in> set ?errors" by simp
  then have "hd ?errors \<noteq> []"
    unfolding validate_register_fields_errors using volunteer_messages_nonempty by auto
  with ne have "py_join ''; '' ?errors \<noteq> []" by (rule py_join_nonempty)
  moreover from assms
  have "validate_register data = Inl (ValidationError (py_join ''; '' ?errors))"
    using validate_register_cases [of data] by auto
  ultimately show ?thesis by blast
qed

lemma new_case_rejected:
  "validate_create data = Inl (ValidationError msg) \<Longrightarrow>
     new_case data now s = (Redirect_referrer, (msg, ''error''), s)"
  by (simp add: new_case_def)

lemma register_volunteer_route_rejected:
  "validate_register data = Inl (ValidationError msg) \<Longrightarrow>
     register_volunteer_route data now s = (Redirect_referrer, (msg, ''error''), s)"
  by (simp add: register_volunteer_route_def)

lemma availability_message_last:
  assumes "strip (get_str data ''availability'') \<notin> set VALID_AVAILABILITY"
  shows "\<exists>pre. py_join ''; '' (fst (validate_register_fields data)) =
           pre @ (if strip (get_str data ''availability'') = []
                  then ''Deployment capacity is required''
                  else ''Deployment capacity must be one of: Full-time, Part-time, Weekends, On-call'')"
proof -
  let ?m = "if strip (get_str data ''availability'') = []
            then ''Deployment capacity is required''
            else ''Deployment capacity must be one of: Full-time, Part-time, Weekends, On-call''"
  have "py_join '', '' VALID_AVAILABILITY = ''Full-time, Part-time, Weekends, On-call''"
    by (simp add: VALID_AVAILABILITY_def)
  with assms have "volunteer_messages data Availability = [?m]"
    by (simp add: Let_def)
  then have "fst (validate_register_fields data) =
      (volunteer_messages data Name @ volunteer_messages data Skills) @ [?m]"
    by (simp add: validate_register_fields_errors volunteer_fields_def)
  then show ?thesis
    using py_join_snoc [of "''; ''" "volunteer_messages data Name @ volunteer_messages data Skills" ?m]
    by simp
qed

text \<open>
  Claim C4, as amended. Validation rejects with a non-empty aggregated error, and the
  route leaves the database as it was, when the trimmed title has fewer than 5
  characters, the trimmed description fewer than 20, the severity lies outside [1,5] or
  people_affected is negative or above 10,000,000. A registration whose trimmed
  availability is not one of Full-time, Part-time, Weekends, On-call is rejected in the
  same way; its error ends with the message naming the four allowed values when the
  trimmed availability is not empty, and with the message that the deployment capacity
  is required when it is empty.
\<close>

theorem validation_rejects_invalid_fields:
  "((length (strip (get_str data ''title'')) < 5
      \<or> length (strip (get_str data ''description'')) < 20
      \<or> (\<exists>n. get_int data ''severity'' = Some n \<and> (n < 1 \<or> 5 < n))
      \<or> (\<exists>n. get_int data ''people_affected'' = Some n \<and> (n < 0 \<or> 10000000 < n)))
     \<longrightarrow> (\<exists>msg. msg \<noteq> [] \<and> validate_create data = Inl (ValidationError msg)
            \<and> new_case data now s = (Redirect_referrer, (msg, ''error''), s)))
   \<and> (strip (get_str vdata ''availability'') \<notin> set VALID_AVAILABILITY
     \<longrightarrow> (\<exists>msg pre. msg \<noteq> [] \<and> validate_register vdata = Inl (ValidationError msg)
            \<and> register_volunteer_route vdata now s = (Redirect_referrer, (msg, ''error''), s)
            \<and> msg = pre @
                 (if strip (get_str vdata ''availability'') = []
                  then ''Deployment capacity is required''
                  else ''Deployment capacity must be one of: Full-time, Part-time, Weekends, On-call'')))"
proof (intro conjI impI)
  assume "length (strip (get_str data ''title'')) < 5
      \<or> length (strip (get_str data ''description'')) < 20
      \<or> (\<exists>n. get_int data ''severity'' = Some n \<and> (n < 1 \<or> 5 < n))
      \<or> (\<exists>n. get_int data ''people_affected'' = Some n \<and> (n < 0 \<or> 10000000 < n))"
  then have "\<not> crisis_rule_ok data Title \<or> \<not> crisis_rule_ok data Description
      \<or> \<not> crisis_rule_ok data Severity \<or> \<not> crisis_rule_ok data People_affected"
    by (auto simp: text_rule_def int_rule_def)
  then obtain msg where "msg \<noteq> []" "validate_create data = Inl (ValidationError msg)"
    using validate_create_rejects by blast
  then show "\<exists>msg. msg \<noteq> [] \<and> validate_create data = Inl (ValidationError msg)
      \<and> new_case data now s = (Redirect_referrer, (msg, ''error''), s)"
    using new_case_rejected by blast
next
  assume bad: "strip (get_str vdata ''availability'') \<notin> set VALID_AVAILABILITY"
  let ?m = "if strip (get_str vdata ''availability'') = []
            then ''Deployment capacity is required''
            else ''Deployment capacity must be one of: Full-time, Part-time, Weekends, On-call''"
  from bad have "\<not> volunteer_rule_ok vdata Availability" by simp
  then obtain msg where msg: "msg \<noteq> []" "validate_register vdata = Inl (ValidationError msg)"
    using validate_register_rejects by blast
  from bad have "\<not> (\<forall>k. volunteer_rule_ok vdata k)"
    using \<open>\<not> volunteer_rule_ok vdata Availability\<close> by blast
  then have "msg = py_join ''; '' (fst (validate_register_fields vdata))"
    using msg(2) validate_register_cases [of vdata] by (auto split: if_splits)
  then obtain pre where "msg = pre @ ?m"
    using availability_message_last [OF bad] by blast
  with msg show "\<exists>msg pre. msg \<noteq> [] \<and> validate_register vdata = Inl (ValidationError msg)
      \<and> register_volunteer_route vdata now s = (Redirect_referrer, (msg, ''error''), s)
      \<and> msg = pre @ ?m"
    using register_volunteer_route_rejected by blast
qed

lemma validate_create_eval:
  "validate_create data =
     (if concat (map (crisis_messages data) crisis_fields) \<noteq> []
      then Inl (ValidationError (py_join ''; '' (concat (map (crisis_messages data) crisis_fields))))
      else Inr \<lparr>clean_title = strip (get_str data ''title''),
                clean_description = strip (get_str data ''description''),
                clean_severity = get_int data ''severity'',
                clean_urgency = get_int data ''urgency'',
                clean_people_affected = get_int data ''people_affected'',
                clean_available_resources = get_int data ''available_resources'',
                clean_required_skill = strip (get_str data ''required_skill'')\<rparr>)"
proof (cases "validate_create_fields data")
  case (Pair errors cleaned)
  then show ?thesis
    using validate_create_fields_errors [of data] validate_create_fields_cleaned [of data]
    by (simp add: validate_create_def)
qed

lemma validate_register_eval:
  "validate_register data =
     (if concat (map (volunteer_messages data) volunteer_fields) \<noteq> []
      then Inl (ValidationError
                  (py_join ''; '' (concat (map (volunteer_messages data) volunteer_fields))))
      else Inr \<lparr>clean_name = strip (get_str data ''name''),
                clean_skills = strip (get_str data ''skills''),
                clean_availability = strip (get_str data ''availability'')\<rparr>)"
proof (cases "validate_register_fields data")
  case (Pair errors cleaned)
  then show ?thesis
    using validate_register_fields_errors [of data] validate_register_fields_cleaned [of data]
    by (simp add: validate_register_def)
qed

theorem validation_rejects_invalid_fields_witness:
  "length (strip (get_str (flood_form(''title'' \<mapsto> ''Hi'')) ''title'')) < 5
   \<and> new_case (flood_form(''title'' \<mapsto> ''Hi'')) 7 empty_db =
       (Redirect_referrer, (''Situation title must be at least 5 characters'', ''error''),
        empty_db)
   \<and> strip (get_str (chen_form(''availability'' \<mapsto> ''Never'')) ''availability'')
       \<notin> set VALID_AVAILABILITY
   \<and> register_volunteer_route (chen_form(''availability'' \<mapsto> ''Never'')) 7 empty_db =
       (Redirect_referrer,
        (''Deployment capacity must be one of: Full-time, Part-time, Weekends, On-call'',
         ''error''),
        empty_db)"
proof -
  let ?f = "flood_form(''title'' \<mapsto> ''Hi'')"
  let ?v = "chen_form(''availability'' \<mapsto> ''Never'')"
  have t: "length (strip (get_str ?f ''title'')) < 5"
    by code_simp
  have a: "strip (get_str ?v ''availability'') \<notin> set VALID_AVAILABILITY"
    by code_simp
  have f: "validate_create ?f =
      Inl (ValidationError ''Situation title must be at least 5 characters'')"
    unfolding validate_create_eval by code_simp
  have v: "validate_register ?v =
      Inl (ValidationError
        ''Deployment capacity must be one of: Full-time, Part-time, Weekends, On-call'')"
    unfolding validate_register_eval by code_simp
  from validation_rejects_invalid_fields [of ?f 7 empty_db ?v] t a f v
  show ?thesis by auto
qed

text \<open>
  The claim as stated fails for the availability: an empty value is rejected with a
  message that does not name the allowed values, and a value that only matches an
  allowed one after trimming is accepted and stored.
\<close>

theorem availability_claim_counterexample:
  "[] \<notin> set VALID_AVAILABILITY
   \<and> validate_register (chen_form(''availability'' \<mapsto> [])) =
       Inl (ValidationError ''Deployment capacity is required'')
   \<and> '' On-call '' \<notin> set VALID_AVAILABILITY
   \<and> register_volunteer_route (chen_form(''availability'' \<mapsto> '' On-call '')) 7 empty_db =
       (Redirect_volunteers,
        (''Personnel registered and ready for deployment'', ''success''),
        \<lparr>crisis_case_table = [],
         volunteer_table =
           [\<lparr>volunteer_id = 1, name = ''Dr. Sarah Chen'',
             skills = ''Emergency Medicine, Trauma Care, Triage'',
             availability = ''On-call'', registered_at = 7\<rparr>]\<rparr>)"
proof -
  have 1: "[] \<notin> set VALID_AVAILABILITY" "'' On-call '' \<notin> set VALID_AVAILABILITY"
    by (simp_all add: VALID_AVAILABILITY_def)
  have 2: "validate_register (chen_form(''availability'' \<mapsto> [])) =
       Inl (ValidationError ''Deployment capacity is required'')"
    unfolding validate_register_eval by code_simp
  have 3: "validate_register (chen_form(''availability'' \<mapsto> '' On-call '')) =
       Inr \<lparr>clean_name = ''Dr. Sarah Chen'',
            clean_skills = ''Emergency Medicine, Trauma Care, Triage'',
            clean_availability = ''On-call''\<rparr>"
    unfolding validate_register_eval by code_simp
  show ?thesis
    using 1 2
    by (simp add: register_volunteer_route_def 3 register_volunteer_def empty_db_def next_id_def
          Let_def)
qed

section \<open>Accepted submissions\<close>

lemma int_rule_SomeE:
  assumes "int_rule lo hi parsed"
  obtains n where "parsed = Some n" "lo \<le> n" "n \<le> hi"
  using assms by (cases parsed) (auto simp: int_rule_def)

lemma create_crisis_validated:
  assumes "\<forall>k. crisis_rule_ok data k"
  shows "\<exists>sev people urg res.
           get_int data ''severity'' = Some sev \<and> 1 \<le> sev \<and> sev \<le> 5
         \<and> get_int data ''people_affected'' = Some people \<and> 0 \<le> people \<and> people \<le> 10000000
         \<and> get_int data ''urgency'' = Some urg \<and> 1 \<le> urg \<and> urg \<le> 5
         \<and> get_int data ''available_resources'' = Some res \<and> 0 \<le> res \<and> res \<le> 1000000
         \<and> validate_create data = Inr (snd (validate_create_fields data))
         \<and> create_crisis (snd (validate_create_fields data)) now s =
             Inr (\<lparr>case_id = next_id (map case_id (crisis_case_table s)),
                   title = strip (get_str data ''title''),
                   description = strip (get_str data ''description''),
                   severity = sev,
                   people_affected = people,
                   urgency = urg,
                   available_resources = res,
                   required_skill = strip (get_str data ''required_skill''),
                   priority_score = sev * 3 + people * 2 + urg * 4 - res * 2,
                   created_at = now\<rparr>,
                  s\<lparr>crisis_case_table := crisis_case_table s @
                     [\<lparr>case_id = next_id (map case_id (crisis_case_table s)),
                       title = strip (get_str data ''title''),
                       description = strip (get_str data ''description''),
                       severity = sev,
                       people_affected = people,
                       urgency = urg,
                       available_resources = res,
                       required_skill = strip (get_str data ''required_skill''),
                       priority_score = sev * 3 + people * 2 + urg * 4 - res * 2,
                       created_at = now\<rparr>]\<rparr>)"
proof -
  from assms have "crisis_rule_ok data Severity" ..
  then obtain sev where sev: "get_int data ''severity'' = Some sev" "1 \<le> sev" "sev \<le> 5"
    by (auto elim: int_rule_SomeE)
  from assms have "crisis_rule_ok data People_affected" ..
  then obtain people where
    people: "get_int data ''people_affected'' = Some people" "0 \<le> people" "people \<le> 10000000"
    by (auto elim: int_rule_SomeE)
  from assms have "crisis_rule_ok data Urgency" ..
  then obtain urg where urg: "get_int data ''urgency'' = Some urg" "1 \<le> urg" "urg \<le> 5"
    by (auto elim: int_rule_SomeE)
  from assms have "crisis_rule_ok data Available_resources" ..
  then obtain res where
    res: "get_int data ''available_resources'' = Some res" "0 \<le> res" "res \<le> 1000000"
    by (auto elim: int_rule_SomeE)
  have "validate_create data = Inr (snd (validate_create_fields data))"
    using assms validate_create_cases [of data] by simp
  moreover have "create_crisis (snd (validate_create_fields data)) now s =
             Inr (\<lparr>case_id = next_id (map case_id (crisis_case_table s)),
                   title = strip (get_str data ''title''),
                   description = strip (get_str data ''description''),
                   severity = sev,
                   people_affected = people,
                   urgency = urg,
                   available_resources = res,
                   required_skill = strip (get_str data ''required_skill''),
                   priority_score = sev * 3 + people * 2 + urg * 4 - res * 2,
                   created_at = now\<rparr>,
                  s\<lparr>crisis_case_table := crisis_case_table s @
                     [\<lparr>case_id = next_id (map case_id (crisis_case_table s)),
                       title = strip (get_str data ''title''),
                       description = strip (get_str data ''description''),
                       severity = sev,
                       people_affected = people,
                       urgency = urg,
                       available_resources = res,
                       required_skill = strip (get_str data ''required_skill''),
                       priority_score = sev * 3 + people * 2 + urg * 4 - res * 2,
                       created_at = now\<rparr>]\<rparr>)"
    unfolding validate_create_fields_cleaned
    using sev people urg res
    by (simp add: create_crisis_def Let_def check_constraints_def calculate_priority_def
          bindable_def sqlite_integer_def)
  ultimately show ?thesis
    using sev people urg res by blast
qed

lemma form_item_present:
  "request_form key \<noteq> None \<Longrightarrow> form_item request_form key = Inr (get_str request_form key)"
  by (auto simp: form_item_def get_str_def)

lemma form_int_present:
  "request_form key \<noteq> None \<Longrightarrow> get_int request_form key = Some n \<Longrightarrow>
     form_int request_form key = Inr n"
  by (auto simp: form_int_def get_int_def)

text \<open>
  Claim C5, as amended. For every submission whose trimmed title has 5 to 200
  characters, whose trimmed description has 20 to 5000, whose severity and urgency lie in
  [1,5], whose people_affected lies in [0, 10,000,000] and available_resources in
  [0, 1,000,000] (each a literal that \<^verbatim>\<open>int\<close> accepts, so of at most 4300 digits, or
  absent for the counts), and whose trimmed skill has 3 to 100 characters, the validated route
  stores exactly one new case; its fields are the cleaned values, its identity is new,
  and its priority_score is the formula value. The record of the validated variant has
  no status. When all seven fields are present, the direct route of \<^verbatim>\<open>app.py\<close> stores
  exactly one new row with the same score and the status \<^verbatim>\<open>'Pending'\<close>.
\<close>

theorem valid_submission_creates_one_case:
  assumes "\<forall>k\<in>set crisis_fields. crisis_rule_ok request_form k"
  shows "\<exists>sev people urg res.
           get_int request_form ''severity'' = Some sev
         \<and> get_int request_form ''people_affected'' = Some people
         \<and> get_int request_form ''urgency'' = Some urg
         \<and> get_int request_form ''available_resources'' = Some res
         \<and> new_case request_form now s =
             (Redirect_cases, (''Crisis report filed and prioritized'', ''success''),
              s\<lparr>crisis_case_table := crisis_case_table s @
                 [\<lparr>case_id = next_id (map case_id (crisis_case_table s)),
                   title = strip (get_str request_form ''title''),
                   description = strip (get_str request_form ''description''),
                   severity = sev,
                   people_affected = people,
                   urgency = urg,
                   available_resources = res,
                   required_skill = strip (get_str request_form ''required_skill''),
                   priority_score = sev * 3 + people * 2 + urg * 4 - res * 2,
                   created_at = now\<rparr>]\<rparr>)
         \<and> ((\<forall>key\<in>set crisis_keys. request_form key \<noteq> None) \<longrightarrow>
              app_new_case request_form now a =
                Inr (a\<lparr>cases_table := cases_table a @
                   [\<lparr>case_id = next_id (map case_id (cases_table a)),
                     title = get_str request_form ''title'',
                     description = get_str request_form ''description'',
                     severity = sev,
                     people_affected = people,
                     urgency = urg,
                     available_resources = res,
                     required_skill = get_str request_form ''required_skill'',
                     priority_score = sev * 3 + people * 2 + urg * 4 - res * 2,
                     created_at = now,
                     status = ''Pending''\<rparr>]\<rparr>))"
proof -
  from assms have ok: "\<forall>k. crisis_rule_ok request_form k"
    using crisis_fields_all by blast
  from create_crisis_validated [OF ok, of now s]
  obtain sev people urg res where
    sev: "get_int request_form ''severity'' = Some sev" "1 \<le> sev" "sev \<le> 5" and
    people: "get_int request_form ''people_affected'' = Some people" "0 \<le> people"
      "people \<le> 10000000" and
    urg: "get_int request_form ''urgency'' = Some urg" "1 \<le> urg" "urg \<le> 5" and
    res: "get_int request_form ''available_resources'' = Some res" "0 \<le> res"
      "res \<le> 1000000" and
    valid: "validate_create request_form = Inr (snd (validate_create_fields request_form))" and
    created: "create_crisis (snd (validate_create_fields request_form)) now s =
             Inr (\<lparr>case_id = next_id (map case_id (crisis_case_table s)),
                   title = strip (get_str request_form ''title''),
                   description = strip (get_str request_form ''description''),
                   severity = sev,
                   people_affected = people,
                   urgency = urg,
                   available_resources = res,
                   required_skill = strip (get_str request_form ''required_skill''),
                   priority_score = sev * 3 + people * 2 + urg * 4 - res * 2,
                   created_at = now\<rparr>,
                  s\<lparr>crisis_case_table := crisis_case_table s @
                     [\<lparr>case_id = next_id (map case_id (crisis_case_table s)),
                       title = strip (get_str request_form ''title''),
                       description = strip (get_str request_form ''description''),
                       severity = sev,
                       people_affected = people,
                       urgency = urg,
                       available_resources = res,
                       required_skill = strip (get_str request_form ''required_skill''),
                       priority_score = sev * 3 + people * 2 + urg * 4 - res * 2,
                       created_at = now\<rparr>]\<rparr>)"
    by blast
  have validated: "new_case request_form now s =
             (Redirect_cases, (''Crisis report filed and prioritized'', ''success''),
              s\<lparr>crisis_case_table := crisis_case_table s @
                 [\<lparr>case_id = next_id (map case_id (crisis_case_table s)),
                   title = strip (get_str request_form ''title''),
                   description = strip (get_str request_form ''description''),
                   severity = sev,
                   people_affected = people,
                   urgency = urg,
                   available_resources = res,
                   required_skill = strip (get_str request_form ''required_skill''),
                   priority_score = sev * 3 + people * 2 + urg * 4 - res * 2,
                   created_at = now\<rparr>]\<rparr>)"
    by (simp add: new_case_def valid created)
  have direct: "app_new_case request_form now a =
                Inr (a\<lparr>cases_table := cases_table a @
                   [\<lparr>case_id = next_id (map case_id (cases_table a)),
                     title = get_str request_form ''title'',
                     description = get_str request_form ''description'',
                     severity = sev,
                     people_affected = people,
                     urgency = urg,
                     available_resources = res,
                     required_skill = get_str request_form ''required_skill'',
                     priority_score = sev * 3 + people * 2 + urg * 4 - res * 2,
                     created_at = now,
                     status = ''Pending''\<rparr>]\<rparr>)"
    if present: "\<forall>key\<in>set crisis_keys. request_form key \<noteq> None"
  proof -
    from present have
      "request_form ''title'' \<noteq> None" "request_form ''description'' \<noteq> None"
      "request_form ''severity'' \<noteq> None" "request_form ''people_affected'' \<noteq> None"
      "request_form ''urgency'' \<noteq> None" "request_form ''available_resources'' \<noteq> None"
      "request_form ''required_skill'' \<noteq> None"
      by (simp_all add: crisis_keys_def)
    then have
      "form_item request_form ''title'' = Inr (get_str request_form ''title'')"
      "form_item request_form ''description'' = Inr (get_str request_form ''description'')"
      "form_int request_form ''severity'' = Inr sev"
      "form_int request_form ''people_affected'' = Inr people"
      "form_int request_form ''urgency'' = Inr urg"
      "form_int request_form ''available_resources'' = Inr res"
      "form_item request_form ''required_skill'' = Inr (get_str request_form ''required_skill'')"
      using sev(1) people(1) urg(1) res(1)
      by (simp_all add: form_item_present form_int_present)
    then show ?thesis
      using sev people urg res
      by (simp add: app_new_case_def Let_def check_constraints_def app_calculate_priority_def
            bindable_def sqlite_integer_def)
  qed
  from sev(1) people(1) urg(1) res(1) validated direct show ?thesis
    by blast
qed

lemma flood_form_values:
  "strip (get_str flood_form ''title'') = ''Severe Flooding in District 7''"
  "strip (get_str flood_form ''description'') =
     ''Heavy rainfall caused river overflow affecting residential areas.''"
  "strip (get_str flood_form ''required_skill'') = ''Rescue Operations''"
  "get_str flood_form ''title'' = ''Severe Flooding in District 7''"
  "get_str flood_form ''description'' =
     ''Heavy rainfall caused river overflow affecting residential areas.''"
  "get_str flood_form ''required_skill'' = ''Rescue Operations''"
  "get_int flood_form ''severity'' = Some 5"
  "get_int flood_form ''people_affected'' = Some 850"
  "get_int flood_form ''urgency'' = Some 5"
  "get_int flood_form ''available_resources'' = Some 12"
  by code_simp+

theorem valid_submission_creates_one_case_witness:
  "list_all (crisis_rule_ok flood_form) crisis_fields
   \<and> new_case flood_form 7 empty_db =
       (Redirect_cases, (''Crisis report filed and prioritized'', ''success''),
        \<lparr>crisis_case_table =
           [\<lparr>case_id = 1,
             title = ''Severe Flooding in District 7'',
             description =
               ''Heavy rainfall caused river overflow affecting residential areas.'',
             severity = 5,
             people_affected = 850,
             urgency = 5,
             available_resources = 12,
             required_skill = ''Rescue Operations'',
             priority_score = 1711,
             created_at = 7\<rparr>],
         volunteer_table = []\<rparr>)
   \<and> list_all (\<lambda>key. flood_form key \<noteq> None) crisis_keys
   \<and> app_new_case flood_form 7 init_database =
       Inr \<lparr>cases_table = [sample_case 1 850 7 ''Pending''], volunteers_table = []\<rparr>"
proof -
  have ok: "\<forall>k\<in>set crisis_fields. crisis_rule_ok flood_form k"
    by code_simp
  have present: "\<forall>key\<in>set crisis_keys. flood_form key \<noteq> None"
    by code_simp
  from valid_submission_creates_one_case [OF ok, of 7 empty_db init_database] present
  have "new_case flood_form 7 empty_db =
       (Redirect_cases, (''Crisis report filed and prioritized'', ''success''),
        \<lparr>crisis_case_table =
           [\<lparr>case_id = 1,
             title = ''Severe Flooding in District 7'',
             description =
               ''Heavy rainfall caused river overflow affecting residential areas.'',
             severity = 5,
             people_affected = 850,
             urgency = 5,
             available_resources = 12,
             required_skill = ''Rescue Operations'',
             priority_score = 1711,
             created_at = 7\<rparr>],
         volunteer_table = []\<rparr>)
   \<and> app_new_case flood_form 7 init_database =
       Inr \<lparr>cases_table = [sample_case 1 850 7 ''Pending''], volunteers_table = []\<rparr>"
    by (simp add: flood_form_values empty_db_def init_database_def next_id_def
          sample_case_def app_calculate_priority_def strip_def py_isspace_def)
  with ok present show ?thesis by (simp add: list_all_iff)
qed

text \<open>
  The claim as stated fails: a submission that meets the conditions it lists, with the
  non-empty skill \<^verbatim>\<open>'IT'\<close>, is rejected and nothing is stored.
\<close>

theorem short_skill_counterexample:
  "crisis_rule_ok (flood_form(''required_skill'' \<mapsto> ''IT'')) Title
   \<and> crisis_rule_ok (flood_form(''required_skill'' \<mapsto> ''IT'')) Description
   \<and> crisis_rule_ok (flood_form(''required_skill'' \<mapsto> ''IT'')) Severity
   \<and> crisis_rule_ok (flood_form(''required_skill'' \<mapsto> ''IT'')) Urgency
   \<and> crisis_rule_ok (flood_form(''required_skill'' \<mapsto> ''IT'')) People_affected
   \<and> crisis_rule_ok (flood_form(''required_skill'' \<mapsto> ''IT'')) Available_resources
   \<and> strip (get_str (flood_form(''required_skill'' \<mapsto> ''IT'')) ''required_skill'') = ''IT''
   \<and> validate_create (flood_form(''required_skill'' \<mapsto> ''IT'')) =
       Inl (ValidationError ''Critical expertise must be at least 3 characters'')
   \<and> new_case (flood_form(''required_skill'' \<mapsto> ''IT'')) 7 empty_db =
       (Redirect_referrer, (''Critical expertise must be at least 3 characters'', ''error''),
        empty_db)"
proof -
  let ?f = "flood_form(''required_skill'' \<mapsto> ''IT'')"
  have rules: "crisis_rule_ok ?f Title" "crisis_rule_ok ?f Description"
    "crisis_rule_ok ?f Severity" "crisis_rule_ok ?f Urgency"
    "crisis_rule_ok ?f People_affected" "crisis_rule_ok ?f Available_resources"
    "strip (get_str ?f ''required_skill'') = ''IT''"
    by code_simp+
  have rejected: "validate_create ?f =
      Inl (ValidationError ''Critical expertise must be at least 3 characters'')"
    unfolding validate_create_eval by code_simp
  then have "new_case ?f 7 empty_db =
      (Redirect_referrer, (''Critical expertise must be at least 3 characters'', ''error''),
       empty_db)"
    by (rule new_case_rejected)
  with rules rejected show ?thesis by blast
qed

section \<open>The digit limit of \<^verbatim>\<open>int\<close>\<close>

lemma filter_dropWhile_other:
  "(\<And>x. P x \<Longrightarrow> \<not> Q x) \<Longrightarrow> filter Q (dropWhile P xs) = filter Q xs"
  by (induction xs) auto

lemma int_isspace_not_digit: "int_isspace c \<Longrightarrow> \<not> is_digit c"
  by (auto simp: int_isspace_def is_digit_def)

text \<open>A literal that \<^verbatim>\<open>int\<close> accepts has at most 4300 digits, leading zeros included.\<close>

lemma py_int_digit_limit:
  assumes "py_int s = Some n"
  shows "int (length (filter is_digit s)) \<le> max_str_digits"
proof -
  define t where "t = rev (dropWhile int_isspace (rev (dropWhile int_isspace s)))"
  define body where
    "body = (case t of [] \<Rightarrow> [] | c # cs \<Rightarrow> if c = CHR ''-'' \<or> c = CHR ''+'' then cs else t)"
  have "filter is_digit t = rev (filter is_digit (dropWhile int_isspace (rev (dropWhile int_isspace s))))"
    by (simp add: t_def rev_filter)
  also have "\<dots> = rev (filter is_digit (rev (dropWhile int_isspace s)))"
    by (simp add: filter_dropWhile_other int_isspace_not_digit)
  also have "\<dots> = filter is_digit (dropWhile int_isspace s)"
    by (simp add: rev_filter)
  also have "\<dots> = filter is_digit s"
    by (simp add: filter_dropWhile_other int_isspace_not_digit)
  finally have t: "filter is_digit t = filter is_digit s" .
  have "filter is_digit body = filter is_digit t"
    by (cases t) (auto simp: body_def is_digit_def)
  with t have body: "filter is_digit body = filter is_digit s" by simp
  from assms have "int (length (filter is_digit body)) \<le> max_str_digits"
    unfolding py_int_def Let_def t_def [symmetric] body_def [symmetric]
    by (auto split: list.splits option.splits if_splits)
  with body show ?thesis by simp
qed

text \<open>
  A severity of 4301 digits (4300 zeros, then 5) is not a number for either route: the
  validator reports it and the direct route raises \<^verbatim>\<open>ValueError\<close>.
\<close>

lemma long_literal_is_rejected:
  "py_int (replicate 4300 CHR ''0'' @ ''5'') = None"
  "\<not> crisis_rule_ok (flood_form(''severity'' \<mapsto> replicate 4300 CHR ''0'' @ ''5'')) Severity"
  "crisis_messages (flood_form(''severity'' \<mapsto> replicate 4300 CHR ''0'' @ ''5'')) Severity =
     [''Severity must be a valid number'']"
  "app_new_case (flood_form(''severity'' \<mapsto> replicate 4300 CHR ''0'' @ ''5'')) now s =
     Inl ValueError"
proof -
  show none: "py_int (replicate 4300 CHR ''0'' @ ''5'') = None"
  proof (cases "py_int (replicate 4300 CHR ''0'' @ ''5'')")
    case (Some n)
    from py_int_digit_limit [OF this] show ?thesis
      by (simp add: is_digit_def max_str_digits_def)
  qed simp
  then show "\<not> crisis_rule_ok (flood_form(''severity'' \<mapsto> replicate 4300 CHR ''0'' @ ''5'')) Severity"
    by (simp add: int_rule_def get_int_def)
  from none show
    "crisis_messages (flood_form(''severity'' \<mapsto> replicate 4300 CHR ''0'' @ ''5'')) Severity =
       [''Severity must be a valid number'']"
    by (simp add: get_int_def)
  from none show
    "app_new_case (flood_form(''severity'' \<mapsto> replicate 4300 CHR ''0'' @ ''5'')) now s =
       Inl ValueError"
    by (simp add: app_new_case_def form_item_def form_int_def flood_form_def)
qed

section \<open>Absent numeric fields\<close>

text \<open>
  Claim C10. When the key \<^verbatim>\<open>people_affected\<close> or \<^verbatim>\<open>available_resources\<close> is absent,
  \<^verbatim>\<open>validate_create\<close> appends no message for that field and its cleaned value is 0, so
  a submission that omits both and is valid otherwise is accepted with both counts 0.
  When \<^verbatim>\<open>severity\<close> or \<^verbatim>\<open>urgency\<close> is absent, the value is taken as 0 and the one
  message of that field is the range error, not the message for a malformed number.
\<close>

theorem absent_numeric_fields_default_to_zero:
  "fst (validate_create_fields data) = concat (map (crisis_messages data) crisis_fields)
   \<and> (data ''people_affected'' = None \<longrightarrow>
        crisis_messages data People_affected = []
        \<and> clean_people_affected (snd (validate_create_fields data)) = Some 0)
   \<and> (data ''available_resources'' = None \<longrightarrow>
        crisis_messages data Available_resources = []
        \<and> clean_available_resources (snd (validate_create_fields data)) = Some 0)
   \<and> (data ''severity'' = None \<longrightarrow>
        crisis_messages data Severity = [''Severity must be between 1 and 5''])
   \<and> (data ''urgency'' = None \<longrightarrow>
        crisis_messages data Urgency = [''Urgency must be between 1 and 5''])
   \<and> (data ''people_affected'' = None \<and> data ''available_resources'' = None
        \<and> (\<forall>k\<in>set [Title, Description, Severity, Urgency, Required_skill].
              crisis_rule_ok data k) \<longrightarrow>
        validate_create data =
          Inr \<lparr>clean_title = strip (get_str data ''title''),
               clean_description = strip (get_str data ''description''),
               clean_severity = get_int data ''severity'',
               clean_urgency = get_int data ''urgency'',
               clean_people_affected = Some 0,
               clean_available_resources = Some 0,
               clean_required_skill = strip (get_str data ''required_skill'')\<rparr>)"
proof -
  have accepted: "validate_create data =
          Inr \<lparr>clean_title = strip (get_str data ''title''),
               clean_description = strip (get_str data ''description''),
               clean_severity = get_int data ''severity'',
               clean_urgency = get_int data ''urgency'',
               clean_people_affected = Some 0,
               clean_available_resources = Some 0,
               clean_required_skill = strip (get_str data ''required_skill'')\<rparr>"
    if absent: "data ''people_affected'' = None" "data ''available_resources'' = None"
      and rest: "\<forall>k\<in>set [Title, Description, Severity, Urgency, Required_skill].
              crisis_rule_ok data k"
  proof -
    from absent have zero: "get_int data ''people_affected'' = Some 0"
      "get_int data ''available_resources'' = Some 0"
      by (simp_all add: get_int_def)
    have "crisis_rule_ok data k" for k
      using rest zero by (cases k) (simp_all add: int_rule_def)
    then have "validate_create data = Inr (snd (validate_create_fields data))"
      using validate_create_cases [of data] by simp
    then show ?thesis
      by (simp add: validate_create_fields_cleaned zero)
  qed
  show ?thesis
    using accepted
    by (simp add: validate_create_fields_errors validate_create_fields_cleaned get_int_def)
qed

theorem absent_numeric_fields_default_to_zero_witness:
  "bridge_form ''people_affected'' = None \<and> bridge_form ''available_resources'' = None
   \<and> validate_create bridge_form =
       Inr \<lparr>clean_title = ''Bridge Infrastructure Failure'',
            clean_description = ''Major bridge showing structural weakness. Traffic rerouted.'',
            clean_severity = Some 4,
            clean_urgency = Some 4,
            clean_people_affected = Some 0,
            clean_available_resources = Some 0,
            clean_required_skill = ''Structural Engineering, Civil Engineering''\<rparr>
   \<and> Map.empty ''severity'' = (None :: string option)
   \<and> crisis_messages Map.empty Severity = [''Severity must be between 1 and 5'']
   \<and> crisis_messages Map.empty Urgency = [''Urgency must be between 1 and 5'']"
proof -
  have absent: "bridge_form ''people_affected'' = None"
    "bridge_form ''available_resources'' = None"
    by (simp_all add: bridge_form_def)
  have rest: "\<forall>k\<in>set [Title, Description, Severity, Urgency, Required_skill].
      crisis_rule_ok bridge_form k"
    by code_simp
  have cleaned: "strip (get_str bridge_form ''title'') = ''Bridge Infrastructure Failure''"
    "strip (get_str bridge_form ''description'') =
       ''Major bridge showing structural weakness. Traffic rerouted.''"
    "strip (get_str bridge_form ''required_skill'') =
       ''Structural Engineering, Civil Engineering''"
    "get_int bridge_form ''severity'' = Some 4"
    "get_int bridge_form ''urgency'' = Some 4"
    by code_simp+
  from absent_numeric_fields_default_to_zero [of bridge_form] absent rest
  have "validate_create bridge_form =
       Inr \<lparr>clean_title = ''Bridge Infrastructure Failure'',
            clean_description = ''Major bridge showing structural weakness. Traffic rerouted.'',
            clean_severity = Some 4,
            clean_urgency = Some 4,
            clean_people_affected = Some 0,
            clean_available_resources = Some 0,
            clean_required_skill = ''Structural Engineering, Civil Engineering''\<rparr>"
    by (simp add: cleaned)
  moreover from absent_numeric_fields_default_to_zero [of Map.empty]
  have "crisis_messages Map.empty Severity = [''Severity must be between 1 and 5'']"
    "crisis_messages Map.empty Urgency = [''Urgency must be between 1 and 5'']"
    by simp_all
  ultimately show ?thesis
    using absent by simp
qed

section \<open>Stored scores\<close>

lemma create_crisis_result:
  assumes "create_crisis validated_data now s = Inr (c, s')"
  shows "clean_severity validated_data = Some (severity c)"
    and "clean_people_affected validated_data = Some (people_affected c)"
    and "clean_urgency validated_data = Some (urgency c)"
    and "clean_available_resources validated_data = Some (available_resources c)"
    and "score_matches c"
    and "case_id c = next_id (map case_id (crisis_case_table s))"
    and "created_at c = now"
    and "crisis_case_table s' = crisis_case_table s @ [c]"
    and "volunteer_table s' = volunteer_table s"
  using assms
  by (auto simp: create_crisis_def Let_def score_matches_def split: option.splits if_splits)

lemma register_volunteer_result:
  assumes "register_volunteer validated_data now s = (v, s')"
  shows "crisis_case_table s' = crisis_case_table s"
    and "volunteer_table s' = volunteer_table s @ [v]"
    and "volunteer_id v = next_id (map volunteer_id (volunteer_table s))"
    and "registered_at v = now"
    and "availability v = clean_availability validated_data"
  using assms by (auto simp: register_volunteer_def Let_def)

lemma new_case_tables:
  assumes "new_case request_form now s = (r, flashed, s')"
  shows "volunteer_table s' = volunteer_table s
       \<and> (crisis_case_table s' = crisis_case_table s
          \<or> (\<exists>c. score_matches c \<and> crisis_case_table s' = crisis_case_table s @ [c]))"
proof (cases "validate_create request_form")
  case (Inl e)
  with assms show ?thesis
    by (cases e) (simp add: new_case_def)
next
  case (Inr validated_data)
  show ?thesis
  proof (cases "create_crisis validated_data now s")
    case (Inl e)
    with Inr assms show ?thesis by (simp add: new_case_def)
  next
    case created: (Inr p)
    obtain c s1 where p: "p = (c, s1)" by (cases p)
    with created Inr assms have "s' = s1" by (simp add: new_case_def)
    with created p show ?thesis
      using create_crisis_result(5,8,9) [of validated_data now s c s1] by blast
  qed
qed

lemma register_volunteer_route_tables:
  assumes "register_volunteer_route request_form now s = (r, flashed, s')"
  shows "crisis_case_table s' = crisis_case_table s
       \<and> (volunteer_table s' = volunteer_table s
          \<or> (\<exists>v. availability v \<in> set VALID_AVAILABILITY
                 \<and> volunteer_table s' = volunteer_table s @ [v]))"
proof (cases "validate_register request_form")
  case (Inl e)
  with assms show ?thesis
    by (cases e) (simp add: register_volunteer_route_def)
next
  case (Inr validated_data)
  obtain v s1 where reg: "register_volunteer validated_data now s = (v, s1)"
    by (cases "register_volunteer validated_data now s")
  with Inr assms have "s' = s1" by (simp add: register_volunteer_route_def)
  moreover from Inr have "\<forall>k. volunteer_rule_ok request_form k"
    and "validated_data = snd (validate_register_fields request_form)"
    using validate_register_cases [of request_form] by (auto split: if_splits)
  then have "volunteer_rule_ok request_form Availability"
    and "validated_data = snd (validate_register_fields request_form)"
    by blast+
  then have "clean_availability validated_data \<in> set VALID_AVAILABILITY"
    by (simp add: validate_register_fields_cleaned)
  ultimately show ?thesis
    using register_volunteer_result(1,2,5) [OF reg] by auto
qed

lemma reachable_score_matches:
  "reachable s \<Longrightarrow> \<forall>c\<in>set (crisis_case_table s). score_matches c"
proof (induction rule: reachable.induct)
  case reachable_empty
  show ?case by (simp add: empty_db_def)
next
  case (reachable_new_case s request_form now r flashed s')
  then show ?case using new_case_tables [of request_form now s r flashed s'] by auto
next
  case (reachable_register_volunteer s request_form now r flashed s')
  then show ?case
    using register_volunteer_route_tables [of request_form now s r flashed s'] by auto
qed

lemma reachable_availability:
  "reachable s \<Longrightarrow> \<forall>v\<in>set (volunteer_table s). availability v \<in> set VALID_AVAILABILITY"
proof (induction rule: reachable.induct)
  case reachable_empty
  show ?case by (simp add: empty_db_def)
next
  case (reachable_new_case s request_form now r flashed s')
  then show ?case using new_case_tables [of request_form now s r flashed s'] by auto
next
  case (reachable_register_volunteer s request_form now r flashed s')
  then show ?case
    using register_volunteer_route_tables [of request_form now s r flashed s'] by auto
qed

text \<open>
  Claim C2. A case created by \<^verbatim>\<open>create_crisis\<close> stores the four numbers it was given
  and the priority formula applied to them. The two routes only append rows to the
  tables, no row is changed or removed, and in every reachable state of the database
  each stored priority_score equals the formula applied to the severity,
  people_affected, urgency and available_resources of its row.
\<close>

theorem stored_score_is_formula:
  "(create_crisis validated_data now s = Inr (c, s') \<longrightarrow>
      clean_severity validated_data = Some (severity c)
      \<and> clean_people_affected validated_data = Some (people_affected c)
      \<and> clean_urgency validated_data = Some (urgency c)
      \<and> clean_available_resources validated_data = Some (available_resources c)
      \<and> priority_score c =
          calculate_priority (severity c) (people_affected c) (urgency c)
            (available_resources c)
      \<and> crisis_case_table s' = crisis_case_table s @ [c])
   \<and> (new_case request_form now t = (r, flashed, t') \<or>
       register_volunteer_route request_form now t = (r, flashed, t') \<longrightarrow>
      (\<exists>cs vs. crisis_case_table t' = crisis_case_table t @ cs
             \<and> volunteer_table t' = volunteer_table t @ vs))
   \<and> (reachable t \<longrightarrow>
      (\<forall>c\<in>set (crisis_case_table t).
         priority_score c =
           calculate_priority (severity c) (people_affected c) (urgency c)
             (available_resources c)))"
proof -
  have a: "clean_severity validated_data = Some (severity c)
      \<and> clean_people_affected validated_data = Some (people_affected c)
      \<and> clean_urgency validated_data = Some (urgency c)
      \<and> clean_available_resources validated_data = Some (available_resources c)
      \<and> priority_score c =
          calculate_priority (severity c) (people_affected c) (urgency c)
            (available_resources c)
      \<and> crisis_case_table s' = crisis_case_table s @ [c]"
    if created: "create_crisis validated_data now s = Inr (c, s')"
    using create_crisis_result [OF created] by (simp add: score_matches_def)
  have b: "\<exists>cs vs. crisis_case_table t' = crisis_case_table t @ cs
             \<and> volunteer_table t' = volunteer_table t @ vs"
    if step: "new_case request_form now t = (r, flashed, t') \<or>
       register_volunteer_route request_form now t = (r, flashed, t')"
    using step
  proof
    assume "new_case request_form now t = (r, flashed, t')"
    from new_case_tables [OF this]
    have "crisis_case_table t' = crisis_case_table t @ []
        \<or> (\<exists>c. crisis_case_table t' = crisis_case_table t @ [c])"
      and "volunteer_table t' = volunteer_table t @ []" by auto
    then show ?thesis by blast
  next
    assume "register_volunteer_route request_form now t = (r, flashed, t')"
    from register_volunteer_route_tables [OF this]
    have "volunteer_table t' = volunteer_table t @ []
        \<or> (\<exists>v. volunteer_table t' = volunteer_table t @ [v])"
      and "crisis_case_table t' = crisis_case_table t @ []" by auto
    then show ?thesis by blast
  qed
  have c: "\<forall>c\<in>set (crisis_case_table t).
         priority_score c =
           calculate_priority (severity c) (people_affected c) (urgency c)
             (available_resources c)"
    if "reachable t"
    using reachable_score_matches [OF that] by (simp add: score_matches_def)
  from a b c show ?thesis by blast
qed

lemma flood_form_ok: "\<forall>k. crisis_rule_ok flood_form k"
proof -
  have "\<forall>k\<in>set crisis_fields. crisis_rule_ok flood_form k"
    by code_simp
  then show ?thesis using crisis_fields_all by blast
qed

lemma new_case_flood_form:
  "new_case flood_form now s =
     (Redirect_cases, (''Crisis report filed and prioritized'', ''success''),
      s\<lparr>crisis_case_table := crisis_case_table s @
         [stored_case (next_id (map case_id (crisis_case_table s))) 850 now]\<rparr>)"
  using create_crisis_validated [OF flood_form_ok, of now s]
  by (auto simp: new_case_def flood_form_values stored_case_def calculate_priority_def
        strip_def py_isspace_def)

lemma chen_form_ok: "\<forall>k. volunteer_rule_ok chen_form k"
proof -
  have "\<forall>k\<in>set volunteer_fields. volunteer_rule_ok chen_form k"
    by code_simp
  then show ?thesis using volunteer_fields_all by blast
qed

lemma chen_form_values:
  "strip (get_str chen_form ''name'') = ''Dr. Sarah Chen''"
  "strip (get_str chen_form ''skills'') = ''Emergency Medicine, Trauma Care, Triage''"
  "strip (get_str chen_form ''availability'') = ''Full-time''"
  by code_simp+

lemma register_volunteer_route_chen_form:
  "register_volunteer_route chen_form now s =
     (Redirect_volunteers, (''Personnel registered and ready for deployment'', ''success''),
      s\<lparr>volunteer_table := volunteer_table s @
         [stored_volunteer (next_id (map volunteer_id (volunteer_table s))) now]\<rparr>)"
  using chen_form_ok validate_register_cases [of chen_form]
  by (simp add: register_volunteer_route_def register_volunteer_def Let_def
        validate_register_fields_cleaned chen_form_values stored_volunteer_def)

theorem stored_score_is_formula_witness:
  "create_crisis
     \<lparr>clean_title = ''Severe Flooding in District 7'',
      clean_description = ''Heavy rainfall caused river overflow affecting residential areas.'',
      clean_severity = Some 5,
      clean_urgency = Some 5,
      clean_people_affected = Some 850,
      clean_available_resources = Some 12,
      clean_required_skill = ''Rescue Operations''\<rparr> 7 empty_db =
     Inr (stored_case 1 850 7,
          \<lparr>crisis_case_table = [stored_case 1 850 7], volunteer_table = []\<rparr>)
   \<and> priority_score (stored_case 1 850 7) = 1711
   \<and> new_case flood_form 7 empty_db =
       (Redirect_cases, (''Crisis report filed and prioritized'', ''success''),
        \<lparr>crisis_case_table = [stored_case 1 850 7], volunteer_table = []\<rparr>)
   \<and> reachable \<lparr>crisis_case_table = [stored_case 1 850 7], volunteer_table = []\<rparr>
   \<and> stored_case 1 850 7 \<in> set (crisis_case_table
         \<lparr>crisis_case_table = [stored_case 1 850 7], volunteer_table = []\<rparr>)
   \<and> priority_score (stored_case 1 850 7) =
       calculate_priority (severity (stored_case 1 850 7))
         (people_affected (stored_case 1 850 7)) (urgency (stored_case 1 850 7))
         (available_resources (stored_case 1 850 7))"
proof -
  let ?d = "\<lparr>clean_title = ''Severe Flooding in District 7'',
      clean_description = ''Heavy rainfall caused river overflow affecting residential areas.'',
      clean_severity = Some 5,
      clean_urgency = Some 5,
      clean_people_affected = Some 850,
      clean_available_resources = Some 12,
      clean_required_skill = ''Rescue Operations''\<rparr>"
  let ?s = "\<lparr>crisis_case_table = [stored_case 1 850 7], volunteer_table = []\<rparr>"
  have created: "create_crisis ?d 7 empty_db = Inr (stored_case 1 850 7, ?s)"
    by (simp add: create_crisis_def Let_def check_constraints_def stored_case_def
          bindable_def sqlite_integer_def calculate_priority_def
          empty_db_def next_id_def)
  have route: "new_case flood_form 7 empty_db =
      (Redirect_cases, (''Crisis report filed and prioritized'', ''success''), ?s)"
    by (simp add: new_case_flood_form empty_db_def next_id_def)
  have reach: "reachable ?s"
    using reachable_new_case [OF reachable_empty route] .
  have score: "priority_score (stored_case 1 850 7) = 1711"
    by (simp add: stored_case_def calculate_priority_def)
  from stored_score_is_formula
    [of ?d 7 empty_db "stored_case 1 850 7" ?s flood_form ?s Redirect_cases
        "(''Crisis report filed and prioritized'', ''success'')" ?s]
    created route reach score
  show ?thesis by simp
qed

section \<open>Repeated submissions\<close>

lemma fold_max_bounds: "(a::nat) \<le> fold max ids a \<and> (\<forall>x\<in>set ids. x \<le> fold max ids a)"
proof (induction ids arbitrary: a)
  case Nil
  show ?case by simp
next
  case (Cons i ids)
  from Cons.IH [of "max i a"] show ?case by auto
qed

lemma next_id_greater: "x \<in> set ids \<Longrightarrow> x < next_id ids"
  using fold_max_bounds [of 0 ids] by (auto simp: next_id_def)

lemma next_id_fresh: "next_id ids \<notin> set ids"
  using next_id_greater [of "next_id ids" ids] by auto

lemma next_id_snoc: "next_id ids < next_id (ids @ [next_id ids])"
  by (rule next_id_greater) simp

text \<open>
  Claim C9. Creation is not idempotent. Submitting the same valid crisis form twice
  stores two cases: the table grows by two rows, the two identities differ from each
  other and from every identity already in the table, the first row carries the time of
  the first request and the second row the time of the second, and the rows agree in
  every other field. The same holds for registering the same valid volunteer form twice.
\<close>

theorem creation_is_not_idempotent:
  "(validate_create request_form = Inr validated_data \<longrightarrow>
      (\<exists>c1 c2.
         new_case request_form t1 s =
           (Redirect_cases, (''Crisis report filed and prioritized'', ''success''),
            s\<lparr>crisis_case_table := crisis_case_table s @ [c1]\<rparr>)
       \<and> new_case request_form t2 (s\<lparr>crisis_case_table := crisis_case_table s @ [c1]\<rparr>) =
           (Redirect_cases, (''Crisis report filed and prioritized'', ''success''),
            s\<lparr>crisis_case_table := crisis_case_table s @ [c1, c2]\<rparr>)
       \<and> case_id c1 \<noteq> case_id c2
       \<and> case_id c1 \<notin> set (map case_id (crisis_case_table s))
       \<and> case_id c2 \<notin> set (map case_id (crisis_case_table s))
       \<and> created_at c1 = t1 \<and> created_at c2 = t2
       \<and> c2 = c1\<lparr>case_id := case_id c2, created_at := t2\<rparr>))
   \<and> (validate_register volunteer_form = Inr volunteer_validated \<longrightarrow>
      (\<exists>v1 v2.
         register_volunteer_route volunteer_form t1 s =
           (Redirect_volunteers,
            (''Personnel registered and ready for deployment'', ''success''),
            s\<lparr>volunteer_table := volunteer_table s @ [v1]\<rparr>)
       \<and> register_volunteer_route volunteer_form t2
             (s\<lparr>volunteer_table := volunteer_table s @ [v1]\<rparr>) =
           (Redirect_volunteers,
            (''Personnel registered and ready for deployment'', ''success''),
            s\<lparr>volunteer_table := volunteer_table s @ [v1, v2]\<rparr>)
       \<and> volunteer_id v1 \<noteq> volunteer_id v2
       \<and> volunteer_id v1 \<notin> set (map volunteer_id (volunteer_table s))
       \<and> volunteer_id v2 \<notin> set (map volunteer_id (volunteer_table s))
       \<and> registered_at v1 = t1 \<and> registered_at v2 = t2
       \<and> v2 = v1\<lparr>volunteer_id := volunteer_id v2, registered_at := t2\<rparr>))"
proof -
  have cases_twice: "\<exists>c1 c2.
         new_case request_form t1 s =
           (Redirect_cases, (''Crisis report filed and prioritized'', ''success''),
            s\<lparr>crisis_case_table := crisis_case_table s @ [c1]\<rparr>)
       \<and> new_case request_form t2 (s\<lparr>crisis_case_table := crisis_case_table s @ [c1]\<rparr>) =
           (Redirect_cases, (''Crisis report filed and prioritized'', ''success''),
            s\<lparr>crisis_case_table := crisis_case_table s @ [c1, c2]\<rparr>)
       \<and> case_id c1 \<noteq> case_id c2
       \<and> case_id c1 \<notin> set (map case_id (crisis_case_table s))
       \<and> case_id c2 \<notin> set (map case_id (crisis_case_table s))
       \<and> created_at c1 = t1 \<and> created_at c2 = t2
       \<and> c2 = c1\<lparr>case_id := case_id c2, created_at := t2\<rparr>"
    if valid: "validate_create request_form = Inr validated_data"
  proof -
    from valid have ok: "\<forall>k. crisis_rule_ok request_form k"
      using validate_create_cases [of request_form] by (auto split: if_splits)
    let ?ids = "map case_id (crisis_case_table s)"
    let ?s1 = "\<lambda>c. s\<lparr>crisis_case_table := crisis_case_table s @ [c]\<rparr>"
    from create_crisis_validated [OF ok, of t1 s]
    obtain c1 where
      first: "validate_create request_form = Inr (snd (validate_create_fields request_form))"
        "create_crisis (snd (validate_create_fields request_form)) t1 s = Inr (c1, ?s1 c1)"
      by blast
    obtain c2 s2 where
      second: "create_crisis (snd (validate_create_fields request_form)) t2 (?s1 c1) =
        Inr (c2, s2)"
      using create_crisis_validated [OF ok, of t2 "?s1 c1"] by blast
    note r1 = create_crisis_result [OF first(2)]
    note r2 = create_crisis_result [OF second]
    from r2(8,9) have s2: "s2 = s\<lparr>crisis_case_table := crisis_case_table s @ [c1, c2]\<rparr>"
      by (cases s2, cases s) simp
    have id1: "case_id c1 = next_id ?ids" using r1(6) .
    have id2: "case_id c2 = next_id (?ids @ [next_id ?ids])" using r2(6) id1 by simp
    have fresh1: "case_id c1 \<notin> set ?ids" unfolding id1 by (rule next_id_fresh)
    have lt: "case_id c1 < case_id c2" unfolding id1 id2 by (rule next_id_snoc)
    have fresh2: "case_id c2 \<notin> set ?ids"
    proof
      assume "case_id c2 \<in> set ?ids"
      then have "case_id c2 < next_id ?ids" by (rule next_id_greater)
      with lt id1 show False by simp
    qed
    have same: "c2 = c1\<lparr>case_id := case_id c2, created_at := t2\<rparr>"
      using first(2) second
      by (auto simp: create_crisis_def Let_def split: option.splits if_splits)
    have "new_case request_form t1 s =
           (Redirect_cases, (''Crisis report filed and prioritized'', ''success''), ?s1 c1)"
      by (simp add: new_case_def first)
    moreover have "new_case request_form t2 (?s1 c1) =
           (Redirect_cases, (''Crisis report filed and prioritized'', ''success''),
            s\<lparr>crisis_case_table := crisis_case_table s @ [c1, c2]\<rparr>)"
      by (simp add: new_case_def first(1) second s2)
    moreover from lt have "case_id c1 \<noteq> case_id c2" by simp
    ultimately show ?thesis
      using fresh1 fresh2 r1(7) r2(7) same by blast
  qed
  have volunteers_twice: "\<exists>v1 v2.
         register_volunteer_route volunteer_form t1 s =
           (Redirect_volunteers,
            (''Personnel registered and ready for deployment'', ''success''),
            s\<lparr>volunteer_table := volunteer_table s @ [v1]\<rparr>)
       \<and> register_volunteer_route volunteer_form t2
             (s\<lparr>volunteer_table := volunteer_table s @ [v1]\<rparr>) =
           (Redirect_volunteers,
            (''Personnel registered and ready for deployment'', ''success''),
            s\<lparr>volunteer_table := volunteer_table s @ [v1, v2]\<rparr>)
       \<and> volunteer_id v1 \<noteq> volunteer_id v2
       \<and> volunteer_id v1 \<notin> set (map volunteer_id (volunteer_table s))
       \<and> volunteer_id v2 \<notin> set (map volunteer_id (volunteer_table s))
       \<and> registered_at v1 = t1 \<and> registered_at v2 = t2
       \<and> v2 = v1\<lparr>volunteer_id := volunteer_id v2, registered_at := t2\<rparr>"
    if valid: "validate_register volunteer_form = Inr volunteer_validated"
  proof -
    let ?ids = "map volunteer_id (volunteer_table s)"
    let ?v1 = "\<lparr>volunteer_id = next_id ?ids,
                name = clean_name volunteer_validated,
                skills = clean_skills volunteer_validated,
                availability = clean_availability volunteer_validated,
                registered_at = t1\<rparr>"
    let ?v2 = "\<lparr>volunteer_id = next_id (?ids @ [next_id ?ids]),
                name = clean_name volunteer_validated,
                skills = clean_skills volunteer_validated,
                availability = clean_availability volunteer_validated,
                registered_at = t2\<rparr>"
    have lt: "next_id ?ids < next_id (?ids @ [next_id ?ids])" by (rule next_id_snoc)
    have fresh1: "next_id ?ids \<notin> set ?ids" by (rule next_id_fresh)
    have fresh2: "next_id (?ids @ [next_id ?ids]) \<notin> set ?ids"
    proof
      assume "next_id (?ids @ [next_id ?ids]) \<in> set ?ids"
      then have "next_id (?ids @ [next_id ?ids]) < next_id ?ids" by (rule next_id_greater)
      with lt show False by simp
    qed
    have "register_volunteer_route volunteer_form t1 s =
           (Redirect_volunteers,
            (''Personnel registered and ready for deployment'', ''success''),
            s\<lparr>volunteer_table := volunteer_table s @ [?v1]\<rparr>)"
      by (simp add: register_volunteer_route_def valid register_volunteer_def Let_def)
    moreover have "register_volunteer_route volunteer_form t2
             (s\<lparr>volunteer_table := volunteer_table s @ [?v1]\<rparr>) =
           (Redirect_volunteers,
            (''Personnel registered and ready for deployment'', ''success''),
            s\<lparr>volunteer_table := volunteer_table s @ [?v1, ?v2]\<rparr>)"
      by (simp add: register_volunteer_route_def valid register_volunteer_def Let_def)
    moreover have "volunteer_id ?v1 \<noteq> volunteer_id ?v2" using lt by simp
    moreover have "volunteer_id ?v1 \<notin> set ?ids" "volunteer_id ?v2 \<notin> set ?ids"
      using fresh1 fresh2 by simp_all
    moreover have "registered_at ?v1 = t1" "registered_at ?v2 = t2"
      "?v2 = ?v1\<lparr>volunteer_id := volunteer_id ?v2, registered_at := t2\<rparr>"
      by simp_all
    ultimately show ?thesis by blast
  qed
  from cases_twice volunteers_twice show ?thesis by blast
qed

theorem creation_is_not_idempotent_witness:
  "validate_create flood_form =
     Inr \<lparr>clean_title = ''Severe Flooding in District 7'',
          clean_description =
            ''Heavy rainfall caused river overflow affecting residential areas.'',
          clean_severity = Some 5,
          clean_urgency = Some 5,
          clean_people_affected = Some 850,
          clean_available_resources = Some 12,
          clean_required_skill = ''Rescue Operations''\<rparr>
   \<and> new_case flood_form 7 empty_db =
       (Redirect_cases, (''Crisis report filed and prioritized'', ''success''),
        \<lparr>crisis_case_table = [stored_case 1 850 7], volunteer_table = []\<rparr>)
   \<and> new_case flood_form 8
         \<lparr>crisis_case_table = [stored_case 1 850 7], volunteer_table = []\<rparr> =
       (Redirect_cases, (''Crisis report filed and prioritized'', ''success''),
        \<lparr>crisis_case_table = [stored_case 1 850 7, stored_case 2 850 8],
         volunteer_table = []\<rparr>)
   \<and> validate_register chen_form =
       Inr \<lparr>clean_name = ''Dr. Sarah Chen'',
            clean_skills = ''Emergency Medicine, Trauma Care, Triage'',
            clean_availability = ''Full-time''\<rparr>
   \<and> register_volunteer_route chen_form 7 empty_db =
       (Redirect_volunteers, (''Personnel registered and ready for deployment'', ''success''),
        \<lparr>crisis_case_table = [], volunteer_table = [stored_volunteer 1 7]\<rparr>)
   \<and> register_volunteer_route chen_form 8
         \<lparr>crisis_case_table = [], volunteer_table = [stored_volunteer 1 7]\<rparr> =
       (Redirect_volunteers, (''Personnel registered and ready for deployment'', ''success''),
        \<lparr>crisis_case_table = [],
         volunteer_table = [stored_volunteer 1 7, stored_volunteer 2 8]\<rparr>)"
proof -
  let ?d = "\<lparr>clean_title = ''Severe Flooding in District 7'',
          clean_description =
            ''Heavy rainfall caused river overflow affecting residential areas.'',
          clean_severity = Some 5,
          clean_urgency = Some 5,
          clean_people_affected = Some 850,
          clean_available_resources = Some 12,
          clean_required_skill = ''Rescue Operations''\<rparr>"
  let ?v = "\<lparr>clean_name = ''Dr. Sarah Chen'',
            clean_skills = ''Emergency Medicine, Trauma Care, Triage'',
            clean_availability = ''Full-time''\<rparr>"
  have d: "validate_create flood_form = Inr ?d"
    using flood_form_ok validate_create_cases [of flood_form]
    by (simp add: validate_create_fields_cleaned flood_form_values strip_def py_isspace_def)
  have v: "validate_register chen_form = Inr ?v"
    using chen_form_ok validate_register_cases [of chen_form]
    by (simp add: validate_register_fields_cleaned chen_form_values)
  have ids: "stored_case 1 850 7 \<noteq> stored_case 2 850 8"
    "stored_volunteer 1 7 \<noteq> stored_volunteer 2 8"
    by (simp_all add: stored_case_def stored_volunteer_def)
  from creation_is_not_idempotent [of flood_form ?d 7 empty_db 8 chen_form ?v] d v ids
  show ?thesis
    by (simp add: new_case_flood_form register_volunteer_route_chen_form empty_db_def
          next_id_def stored_case_def stored_volunteer_def)
qed

section \<open>Ordering of the case list\<close>

lemma set_insert_row: "set (insert_row before x ys) = insert x (set ys)"
  by (induction ys) auto

lemma mset_insert_row: "mset (insert_row before x ys) = add_mset x (mset ys)"
  by (induction ys) auto

lemma mset_order_by: "mset (order_by before rows) = mset rows"
  by (induction rows) (simp_all add: order_by_def mset_insert_row)

lemma sorted_wrt_insert_row:
  assumes total: "\<And>a b. before a b \<or> before b a"
    and trans: "\<And>a b c. before a b \<Longrightarrow> before b c \<Longrightarrow> before a c"
    and sorted: "sorted_wrt before ys"
  shows "sorted_wrt before (insert_row before x ys)"
  using sorted
proof (induction ys)
  case Nil
  show ?case by simp
next
  case (Cons y ys)
  show ?case
  proof (cases "before x y")
    case True
    with Cons.prems trans show ?thesis by auto
  next
    case False
    with total have "before y x" by blast
    with False Cons show ?thesis by (auto simp: set_insert_row)
  qed
qed

lemma sorted_wrt_order_by:
  assumes "\<And>a b. before a b \<or> before b a"
    and "\<And>a b c. before a b \<Longrightarrow> before b c \<Longrightarrow> before a c"
  shows "sorted_wrt before (order_by before rows)"
proof (induction rows)
  case Nil
  show ?case by (simp add: order_by_def)
next
  case (Cons r rows)
  then have "sorted_wrt before (insert_row before r (order_by before rows))"
    using assms by (intro sorted_wrt_insert_row) auto
  then show ?case by (simp add: order_by_def)
qed

lemma sorted_priority_created_desc:
  "sorted_wrt priority_created_desc (order_by priority_created_desc rows)"
  by (rule sorted_wrt_order_by) (auto simp: priority_created_desc_def)

lemma order_by_priority_nth:
  assumes "i < j" "j < length (order_by priority_created_desc rows)"
  shows "priority_score (order_by priority_created_desc rows ! j)
           \<le> priority_score (order_by priority_created_desc rows ! i)
       \<and> (priority_score (order_by priority_created_desc rows ! i) =
            priority_score (order_by priority_created_desc rows ! j) \<longrightarrow>
          created_at (order_by priority_created_desc rows ! j)
            \<le> created_at (order_by priority_created_desc rows ! i))"
proof -
  have "priority_created_desc (order_by priority_created_desc rows ! i)
          (order_by priority_created_desc rows ! j)"
    using sorted_priority_created_desc [of rows] assms
    by (simp add: sorted_wrt_iff_nth_less)
  then show ?thesis by (auto simp: priority_created_desc_def)
qed

text \<open>
  Claim C6. The case list holds exactly the stored cases, and for any two positions
  \<open>i < j\<close> of it the priority_score at \<open>i\<close> is at least the one at \<open>j\<close>; when the two
  scores are equal, the creation timestamp at \<open>i\<close> is at least the one at \<open>j\<close>, so the
  newer case comes first. This holds for the list of the validated variant and for
  the list of the direct variant.
\<close>

theorem case_list_is_ordered:
  "mset (get_all_cases_sorted s) = mset (crisis_case_table s)
   \<and> (\<forall>i j. i < j \<and> j < length (get_all_cases_sorted s) \<longrightarrow>
        priority_score (get_all_cases_sorted s ! j) \<le> priority_score (get_all_cases_sorted s ! i)
        \<and> (priority_score (get_all_cases_sorted s ! i) =
             priority_score (get_all_cases_sorted s ! j) \<longrightarrow>
           created_at (get_all_cases_sorted s ! j) \<le> created_at (get_all_cases_sorted s ! i)))
   \<and> mset (app_cases a) = mset (cases_table a)
   \<and> (\<forall>i j. i < j \<and> j < length (app_cases a) \<longrightarrow>
        priority_score (app_cases a ! j) \<le> priority_score (app_cases a ! i)
        \<and> (priority_score (app_cases a ! i) = priority_score (app_cases a ! j) \<longrightarrow>
           created_at (app_cases a ! j) \<le> created_at (app_cases a ! i)))"
  unfolding get_all_cases_sorted_def app_cases_def
  using order_by_priority_nth [of _ _ "rev (crisis_case_table s)"]
    order_by_priority_nth [of _ _ "cases_table a"]
  by (simp add: mset_order_by)

theorem case_list_is_ordered_witness:
  "get_all_cases_sorted
     \<lparr>crisis_case_table = [stored_case 1 10 5, stored_case 2 850 6, stored_case 3 850 9],
      volunteer_table = []\<rparr> =
     [stored_case 3 850 9, stored_case 2 850 6, stored_case 1 10 5]
   \<and> priority_score (stored_case 3 850 9) = 1711
   \<and> priority_score (stored_case 2 850 6) = 1711
   \<and> priority_score (stored_case 1 10 5) = 31
   \<and> app_cases
       \<lparr>cases_table =
          [sample_case 1 10 5 ''Pending'', sample_case 2 850 6 ''Active'',
           sample_case 3 850 9 ''Pending''],
        volunteers_table = []\<rparr> =
       [sample_case 3 850 9 ''Pending'', sample_case 2 850 6 ''Active'',
        sample_case 1 10 5 ''Pending'']
   \<and> (0::nat) < 1
   \<and> 1 < length (get_all_cases_sorted
         \<lparr>crisis_case_table = [stored_case 1 10 5, stored_case 2 850 6, stored_case 3 850 9],
          volunteer_table = []\<rparr>)
   \<and> created_at (stored_case 2 850 6) \<le> created_at (stored_case 3 850 9)"
proof -
  let ?s = "\<lparr>crisis_case_table = [stored_case 1 10 5, stored_case 2 850 6, stored_case 3 850 9],
      volunteer_table = []\<rparr>"
  let ?a = "\<lparr>cases_table =
          [sample_case 1 10 5 ''Pending'', sample_case 2 850 6 ''Active'',
           sample_case 3 850 9 ''Pending''],
        volunteers_table = []\<rparr>"
  have sorted: "get_all_cases_sorted ?s =
      [stored_case 3 850 9, stored_case 2 850 6, stored_case 1 10 5]"
    by (simp add: get_all_cases_sorted_def order_by_def priority_created_desc_def
          stored_case_def calculate_priority_def)
  have app_sorted: "app_cases ?a =
      [sample_case 3 850 9 ''Pending'', sample_case 2 850 6 ''Active'',
       sample_case 1 10 5 ''Pending'']"
    by (simp add: app_cases_def order_by_def priority_created_desc_def
          sample_case_def app_calculate_priority_def)
  have scores: "priority_score (stored_case 3 850 9) = 1711"
    "priority_score (stored_case 2 850 6) = 1711"
    "priority_score (stored_case 1 10 5) = 31"
    by (simp_all add: stored_case_def calculate_priority_def)
  have "\<forall>i j. i < j \<and> j < length (get_all_cases_sorted ?s) \<longrightarrow>
      priority_score (get_all_cases_sorted ?s ! j) \<le> priority_score (get_all_cases_sorted ?s ! i)
      \<and> (priority_score (get_all_cases_sorted ?s ! i) =
            priority_score (get_all_cases_sorted ?s ! j) \<longrightarrow>
          created_at (get_all_cases_sorted ?s ! j) \<le> created_at (get_all_cases_sorted ?s ! i))"
    by (rule conjunct1 [OF conjunct2 [OF case_list_is_ordered [of ?s ?a]]])
  from this [rule_format, of 0 1]
  have "created_at (stored_case 2 850 6) \<le> created_at (stored_case 3 850 9)"
    unfolding sorted by (simp add: stored_case_def)
  with sorted app_sorted scores show ?thesis by simp
qed

section \<open>Rounding error of the float operations\<close>









section \<open>Dashboard counts\<close>

lemma sql_count_filter: "sql_count p rows = length (filter p rows)"
  by (induction rows) simp_all

lemma sql_count_card: "sql_count p rows = card {i. i < length rows \<and> p (rows ! i)}"
  by (simp add: sql_count_filter length_filter_conv_card)


lemma sql_count_less: "sql_count p rows < length rows \<longleftrightarrow> (\<exists>r\<in>set rows. \<not> p r)"
proof
  assume "sql_count p rows < length rows"
  then have "filter p rows \<noteq> rows" by (auto simp: sql_count_filter)
  then show "\<exists>r\<in>set rows. \<not> p r" by (auto simp: filter_id_conv)
next
  assume "\<exists>r\<in>set rows. \<not> p r"
  then show "sql_count p rows < length rows"
    by (auto simp: sql_count_filter intro: length_filter_less)
qed

text \<open>The guards of \<^verbatim>\<open>index\<close> keep both divisions away from zero: it never raises.\<close>

lemma app_index_value:
  "app_index a =
     Inr \<lparr>total_cases = length (cases_table a),
          high_priority_cases = sql_count (\<lambda>c. 20 \<le> priority_score c) (cases_table a),
          active_volunteers = sql_count (\<lambda>v. row_availability v = 1) (volunteers_table a),
          resolution_rate =
            (if cases_table a = [] then 0
             else py_round
                    (float_mul
                       (to_double
                          (of_nat (sql_count (\<lambda>c. status c = ''Completed'') (cases_table a)) /
                           of_nat (length (cases_table a))))
                       100) 1),
          volunteer_utilization =
            (if sql_count (\<lambda>v. row_availability v = 1) (volunteers_table a) = 0 then 0
             else min 100
                    (py_round
                       (float_mul
                          (to_double
                             (of_nat (sql_count (\<lambda>c. status c = ''Active'') (cases_table a)) /
                              of_nat (sql_count (\<lambda>v. row_availability v = 1)
                                        (volunteers_table a))))
                          100) 1))\<rparr>"
  by (simp add: app_index_def Let_def py_truediv_def min_def not_less)

lemma get_dashboard_stats_counts_all_volunteers:
  "active_volunteers (get_dashboard_stats s) = length (volunteer_table s)"
  by (simp add: get_dashboard_stats_def)

text \<open>
  Claim C8, as amended. For every state, the high-priority statistic of the dashboard is
  the number of cases whose priority_score is at least 20, in both variants. The
  volunteer statistic of the direct variant is the number of rows of the volunteer table
  whose availability flag is 1; it is smaller than the number of registered volunteers
  exactly when some volunteer is not available. The volunteer statistic of the validated
  variant, whose volunteer table has no availability flag, is the number of all
  registered volunteers.
\<close>

theorem dashboard_statistics:
  "(\<exists>d. app_index a = Inr d
      \<and> active_volunteers d =
          card {i. i < length (volunteers_table a)
                 \<and> row_availability (volunteers_table a ! i) = 1}
      \<and> (active_volunteers d < length (volunteers_table a) \<longleftrightarrow>
           (\<exists>v\<in>set (volunteers_table a). row_availability v \<noteq> 1))
      \<and> high_priority_cases d =
          card {i. i < length (cases_table a) \<and> 20 \<le> priority_score (cases_table a ! i)})
   \<and> high_priority_cases (get_dashboard_stats s) =
       card {i. i < length (crisis_case_table s) \<and> 20 \<le> priority_score (crisis_case_table s ! i)}
   \<and> active_volunteers (get_dashboard_stats s) = length (volunteer_table s)"
proof -
  obtain d where d: "app_index a = Inr d"
    and active: "active_volunteers d =
      sql_count (\<lambda>v. row_availability v = 1) (volunteers_table a)"
    and high: "high_priority_cases d =
      sql_count (\<lambda>c. 20 \<le> priority_score c) (cases_table a)"
    using app_index_value [of a] by simp
  have "active_volunteers d =
      card {i. i < length (volunteers_table a)
             \<and> row_availability (volunteers_table a ! i) = 1}"
    unfolding active by (rule sql_count_card)
  moreover have "active_volunteers d < length (volunteers_table a) \<longleftrightarrow>
        (\<exists>v\<in>set (volunteers_table a). row_availability v \<noteq> 1)"
    unfolding active by (rule sql_count_less)
  moreover have "high_priority_cases d =
      card {i. i < length (cases_table a) \<and> 20 \<le> priority_score (cases_table a ! i)}"
    unfolding high by (rule sql_count_card)
  moreover have "high_priority_cases (get_dashboard_stats s) =
      card {i. i < length (crisis_case_table s)
             \<and> 20 \<le> priority_score (crisis_case_table s ! i)}"
    by (simp add: get_dashboard_stats_def sql_count_card)
  ultimately show ?thesis
    using d get_dashboard_stats_counts_all_volunteers [of s] by blast
qed

theorem dashboard_statistics_witness:
  "app_index
     \<lparr>cases_table = [sample_case 1 850 7 ''Active'', sample_case 2 0 8 ''Pending''],
      volunteers_table = sample_volunteers\<rparr> =
     Inr \<lparr>total_cases = 2, high_priority_cases = 1, active_volunteers = 1,
          resolution_rate = 0, volunteer_utilization = 100\<rparr>
   \<and> length sample_volunteers = 2
   \<and> (\<exists>v\<in>set sample_volunteers. row_availability v \<noteq> 1)
   \<and> priority_score (sample_case 1 850 7 ''Active'') = 1711
   \<and> priority_score (sample_case 2 0 8 ''Pending'') = 11
   \<and> high_priority_cases
       (get_dashboard_stats
          \<lparr>crisis_case_table = [stored_case 1 850 7], volunteer_table = []\<rparr>) = 1"
proof -
  let ?a = "\<lparr>cases_table = [sample_case 1 850 7 ''Active'', sample_case 2 0 8 ''Pending''],
         volunteers_table = sample_volunteers\<rparr>"
  let ?s = "\<lparr>crisis_case_table = [stored_case 1 850 7], volunteer_table = []\<rparr>"
  have index: "app_index ?a =
     Inr \<lparr>total_cases = 2, high_priority_cases = 1, active_volunteers = 1,
          resolution_rate = 0, volunteer_utilization = 100\<rparr>"
    by code_simp
  have unavailable: "\<exists>v\<in>set sample_volunteers. row_availability v \<noteq> 1"
    by (simp add: sample_volunteers_def)
  have scores: "priority_score (sample_case 1 850 7 ''Active'') = 1711"
    "priority_score (sample_case 2 0 8 ''Pending'') = 11"
    by (simp_all add: sample_case_def app_calculate_priority_def)
  have "{i. i < length (crisis_case_table ?s) \<and> 20 \<le> priority_score (crisis_case_table ?s ! i)}
      = {0}"
    by (auto simp: stored_case_def calculate_priority_def)
  with dashboard_statistics [of ?a ?s]
  have "high_priority_cases (get_dashboard_stats ?s) = 1" by simp
  with index unavailable scores show ?thesis
    by (simp add: sample_volunteers_def)
qed

text \<open>
  The claim as stated fails in the validated variant: its statistic does not look at
  the availability. A volunteer stored by the service with the availability
  \<^verbatim>\<open>'Unavailable'\<close> is counted, and in a state reached through the route the statistic is
  the number of all registered volunteers.
\<close>

theorem validated_dashboard_counts_every_volunteer:
  "register_volunteer anderson_data 8
     \<lparr>crisis_case_table = [], volunteer_table = [stored_volunteer 1 7]\<rparr> =
     (\<lparr>volunteer_id = 2, name = ''Dr. Lisa Anderson'',
       skills = ''Public Health, Sanitation, Water Quality'',
       availability = ''Unavailable'', registered_at = 8\<rparr>,
      \<lparr>crisis_case_table = [],
       volunteer_table =
         [stored_volunteer 1 7,
          \<lparr>volunteer_id = 2, name = ''Dr. Lisa Anderson'',
           skills = ''Public Health, Sanitation, Water Quality'',
           availability = ''Unavailable'', registered_at = 8\<rparr>]\<rparr>)
   \<and> active_volunteers
       (get_dashboard_stats
          \<lparr>crisis_case_table = [],
           volunteer_table =
             [stored_volunteer 1 7,
              \<lparr>volunteer_id = 2, name = ''Dr. Lisa Anderson'',
               skills = ''Public Health, Sanitation, Water Quality'',
               availability = ''Unavailable'', registered_at = 8\<rparr>]\<rparr>) = 2
   \<and> reachable
       \<lparr>crisis_case_table = [],
        volunteer_table = [stored_volunteer 1 7, stored_volunteer 2 8]\<rparr>
   \<and> active_volunteers
       (get_dashboard_stats
          \<lparr>crisis_case_table = [],
           volunteer_table = [stored_volunteer 1 7, stored_volunteer 2 8]\<rparr>) = 2
   \<and> length [stored_volunteer 1 7, stored_volunteer 2 8] = 2"
proof -
  let ?s1 = "\<lparr>crisis_case_table = [], volunteer_table = [stored_volunteer 1 7]\<rparr>"
  let ?s2 = "\<lparr>crisis_case_table = [],
        volunteer_table = [stored_volunteer 1 7, stored_volunteer 2 8]\<rparr>"
  have stored: "register_volunteer anderson_data 8 ?s1 =
     (\<lparr>volunteer_id = 2, name = ''Dr. Lisa Anderson'',
       skills = ''Public Health, Sanitation, Water Quality'',
       availability = ''Unavailable'', registered_at = 8\<rparr>,
      \<lparr>crisis_case_table = [],
       volunteer_table =
         [stored_volunteer 1 7,
          \<lparr>volunteer_id = 2, name = ''Dr. Lisa Anderson'',
           skills = ''Public Health, Sanitation, Water Quality'',
           availability = ''Unavailable'', registered_at = 8\<rparr>]\<rparr>)"
    by (simp add: register_volunteer_def Let_def anderson_data_def next_id_def
          stored_volunteer_def)
  have "register_volunteer_route chen_form 7 empty_db =
      (Redirect_volunteers, (''Personnel registered and ready for deployment'', ''success''),
       ?s1)"
    by (simp add: register_volunteer_route_chen_form empty_db_def next_id_def)
  from reachable_register_volunteer [OF reachable_empty this]
  have r1: "reachable ?s1" .
  have "register_volunteer_route chen_form 8 ?s1 =
      (Redirect_volunteers, (''Personnel registered and ready for deployment'', ''success''),
       ?s2)"
    by (simp add: register_volunteer_route_chen_form next_id_def stored_volunteer_def)
  from reachable_register_volunteer [OF r1 this]
  have r2: "reachable ?s2" .
  from stored r2 show ?thesis
    by (simp add: get_dashboard_stats_def)
qed

section \<open>Resolution rate\<close>






text \<open>
  Known values: the floats of \<open>1 / 10\<close> and \<open>1 / 3\<close>, a product that is not exact
  (\<^verbatim>\<open>0.07 * 100\<close> is \<^verbatim>\<open>7.000000000000001\<close>), a tie resolved to the even digit
  (\<^verbatim>\<open>round(12.25, 1)\<close> is \<^verbatim>\<open>12.2\<close>), and the division that raises.
\<close>

lemma float_examples:
  "py_truediv 1 10 = Inr (3602879701896397 / 36028797018963968)"
  "py_truediv 1 3 = Inr (6004799503160661 / 18014398509481984)"
  "float_mul (to_double (7 / 100)) 100 = 7881299347898369 / 1125899906842624"
  "py_round (49 / 4) 1 = to_double (122 / 10)"
  "to_double 30 = 30"
  "py_truediv 0 0 = Inl ZeroDivisionError"
  by code_simp+




end
